theory Spec2Isabelle
  imports Complex_Main "HOL-Library.Multiset"
begin

section \<open>Beam-tilt estimation: accumulate, checkpoint, fit\<close>

text \<open>
  A shallow embedding of \<^verbatim>\<open>TiltEstimator\<close> (tilt_estimator.cpp):
  \<^verbatim>\<open>processMicrograph\<close>, \<^verbatim>\<open>parametricFit\<close> and \<^verbatim>\<open>isFinished\<close>.

  Conventions of the model.
  \<^item> A \<^verbatim>\<open>double\<close> is a real number: rounding and overflow are not modelled, and the
    configured numbers are finite. The one place of the code where finite operands give
    a non-finite result, the division \<^verbatim>\<open>s * angpix / rp\<close> of the exclusion ring, has an
    explicit result type.
  \<^item> An image is the function from \<open>(y, x)\<close> to the pixel, as \<^verbatim>\<open>img(y,x)\<close> reads it; every
    image of the code has \<open>sh\<close> columns and \<open>s\<close> rows, and every loop stays inside them.
  \<^item> The file system is a map from file names to stored images; \<^verbatim>\<open>exists(fn)\<close> is
    membership in its domain, and a write stores the whole image in one step.
  \<^item> \<^verbatim>\<open>REPORT_ERROR\<close> and an out-of-range vector index are values of \<open>error\<close>.
  \<^item> Routines of other translation units (TiltHelper, FilterHelper, FftwHelper,
    CtfRefiner, ReferenceMap) are the fields of the record \<open>helpers\<close>.
  \<^item> The message \<^verbatim>\<open>parametricFit\<close> prints when \<^verbatim>\<open>verb > 0\<close> is left out, and so are the
    members \<^verbatim>\<open>verb\<close> and \<^verbatim>\<open>diag\<close> and the argument \<^verbatim>\<open>g\<close> of \<^verbatim>\<open>processMicrograph\<close>,
    which the three functions do not otherwise use.
\<close>

subsection \<open>Numbers, strings, images\<close>

datatype error = NotInitialized | OutOfBounds

datatype xdouble = Fin real | PInf | NInf | NaN

definition ddiv :: "real \<Rightarrow> real \<Rightarrow> xdouble" where
  \<comment> \<open>\<^verbatim>\<open>a / b\<close> on doubles, for a divisor that is never negative zero\<close>
  "ddiv a b =
     (if b \<noteq> 0 then Fin (a / b)
      else if 0 < a then PInf
      else if a < 0 then NInf
      else NaN)"

fun dgt :: "xdouble \<Rightarrow> real \<Rightarrow> bool" where
  \<comment> \<open>\<^verbatim>\<open>a > b\<close> with a finite \<open>b\<close>\<close>
  "dgt (Fin a) b = (b < a)"
| "dgt PInf b = True"
| "dgt NInf b = False"
| "dgt NaN b = False"

fun dle :: "xdouble \<Rightarrow> real \<Rightarrow> bool" where
  \<comment> \<open>\<^verbatim>\<open>a <= b\<close> with a finite \<open>b\<close>\<close>
  "dle (Fin a) b = (a \<le> b)"
| "dle PInf b = False"
| "dle NInf b = True"
| "dle NaN b = False"

definition digit_char :: "nat \<Rightarrow> char" where
  "digit_char n = ''0123456789'' ! (n mod 10)"

function show_nat :: "nat \<Rightarrow> string" where
  "show_nat n = (if n < 10 then [digit_char n] else show_nat (n div 10) @ [digit_char n])"
  by pat_completeness auto
termination
  by (relation "measure id") auto

declare show_nat.simps [simp del]

definition show_int :: "int \<Rightarrow> string" where
  \<comment> \<open>\<^verbatim>\<open>sts << i\<close> for an int\<close>
  "show_int i = (if i < 0 then CHR ''-'' # show_nat (nat (- i)) else show_nat (nat i))"

type_synonym 'a image = "nat \<Rightarrow> nat \<Rightarrow> 'a"

definition img_zero :: "'a::zero image" where
  \<comment> \<open>Modelled from the spec: the constructor \<^verbatim>\<open>Image<T>(sh,s)\<close> is in src/image.h, outside
      the source given; a fresh accumulator is zero (spec 4.3, steps 2 and 4: pairs are
      allocated zero-initialised and the per-worker ones are summed into one pair). It is
      also the image after \<^verbatim>\<open>initZeros()\<close>.\<close>
  "img_zero = (\<lambda>y x. 0)"

definition img_add :: "'a::plus image \<Rightarrow> 'a image \<Rightarrow> 'a image" where
  \<comment> \<open>\<^verbatim>\<open>a() += b()\<close>, and \<^verbatim>\<open>ImageOp::linearCombination(a, b, 1.0, 1.0, a)\<close>\<close>
  "img_add a b = (\<lambda>y x. a y x + b y x)"

definition img_set :: "'a image \<Rightarrow> nat \<Rightarrow> nat \<Rightarrow> 'a \<Rightarrow> 'a image" where
  \<comment> \<open>\<^verbatim>\<open>img(y,x) = v\<close>\<close>
  "img_set img y x v = img(y := (img y)(x := v))"

definition pixels :: "nat \<Rightarrow> nat \<Rightarrow> (nat \<times> nat) list" where
  \<comment> \<open>the order of \<^verbatim>\<open>for (y < s) for (x < sh)\<close>\<close>
  "pixels s sh = concat (map (\<lambda>y. map (\<lambda>x. (y, x)) [0..<sh]) [0..<s])"

subsection \<open>Tables and the file system\<close>

datatype EMDLabel =
    EMDL_IMAGE_OPTICS_GROUP
  | EMDL_IMAGE_BEAMTILT_X
  | EMDL_IMAGE_BEAMTILT_Y
  | EMDL_IMAGE_ODD_ZERNIKE_COEFFS
  | EMDL_OTHER string

datatype cell = DoubleCell real | VectorCell "real list" | IntCell int | StringCell string

type_synonym table = "nat \<times> EMDLabel \<rightharpoonup> cell"

definition setValue :: "EMDLabel \<Rightarrow> cell \<Rightarrow> nat \<Rightarrow> table \<Rightarrow> table" where
  \<comment> \<open>Modelled from the spec: \<^verbatim>\<open>MetaDataTable::setValue(label, value, row)\<close> belongs to the
      tabular metadata store, which is outside the source given; it is the write of the
      one cell \<open>(row, label)\<close> (spec 6: columns produced per group).\<close>
  "setValue l v row t = t((row, l) \<mapsto> v)"

record particle =
  optics_group :: int
  ctf_params :: "real list"

type_synonym MetaDataTable = "particle list"

type_synonym files = "string \<rightharpoonup> real image"

definition exists_file :: "files \<Rightarrow> string \<Rightarrow> bool" where
  "exists_file fs fn = (fn \<in> dom fs)"

definition read_image :: "files \<Rightarrow> string \<Rightarrow> real image" where
  \<comment> \<open>\<^verbatim>\<open>img.read(fn)\<close>, called only for a file that exists\<close>
  "read_image fs fn = (case fs fn of Some img \<Rightarrow> img | None \<Rightarrow> img_zero)"

definition ComplexIO_read :: "files \<Rightarrow> string \<Rightarrow> string \<Rightarrow> complex image" where
  \<comment> \<open>Modelled from the spec: \<^verbatim>\<open>ComplexIO::read(img, base, suffix)\<close> is outside the source
      given; the complex image is stored as two real components (spec 6), under the
      names \<^verbatim>\<open>parametricFit\<close> tests before it reads.\<close>
  "ComplexIO_read fs base suffix =
     (\<lambda>y x. Complex (read_image fs (base @ ''_real'' @ suffix) y x)
                    (read_image fs (base @ ''_imag'' @ suffix) y x))"

definition ComplexIO_write :: "complex image \<Rightarrow> string \<Rightarrow> string \<Rightarrow> (string \<times> real image) list" where
  \<comment> \<open>Modelled from the spec: \<^verbatim>\<open>ComplexIO::write(img, base, suffix)\<close> is outside the source
      given; it stores the two real components (spec 6) under the names the readers use.\<close>
  "ComplexIO_write img base suffix =
     [(base @ ''_real'' @ suffix, \<lambda>y x. Re (img y x)),
      (base @ ''_imag'' @ suffix, \<lambda>y x. Im (img y x))]"

definition write_file :: "files \<Rightarrow> string \<times> real image \<Rightarrow> files" where
  "write_file fs w = fs(fst w \<mapsto> snd w)"

definition apply_writes :: "files \<Rightarrow> (string \<times> real image) list \<Rightarrow> files" where
  "apply_writes fs ws = foldl write_file fs ws"

subsection \<open>The estimator, the observation model, the external routines\<close>

text \<open>Field \<^verbatim>\<open>x\<close> of \<^verbatim>\<open>TiltEstimator\<close> is \<open>te_x\<close>; \<^verbatim>\<open>sh = s/2 + 1\<close> is set by \<^verbatim>\<open>init\<close>.\<close>

record TiltEstimator =
  te_ready :: bool
  te_s :: nat
  te_sh :: nat
  te_nr_omp_threads :: nat
  te_debug :: bool
  te_outPath :: string
  te_angpix :: real
  te_kmin :: real
  te_aberr_n_max :: int
  te_xring0 :: real
  te_xring1 :: real

text \<open>
  \<^verbatim>\<open>ObservationModel\<close>: the vectors \<^verbatim>\<open>Cs\<close> and \<^verbatim>\<open>lambda\<close>, and the value of
  \<^verbatim>\<open>numberOfOpticsGroups()\<close>, which is declared in obs_model.h and defined elsewhere.
\<close>

record ObservationModel =
  om_Cs :: "real list"
  om_lambda :: "real list"
  om_numberOfOpticsGroups :: nat

record helpers =
  getOutputFilenameRoot :: "MetaDataTable \<Rightarrow> string \<Rightarrow> string"
  getPhase :: "complex image \<Rightarrow> real image"
  angToPix :: "real \<Rightarrow> nat \<Rightarrow> nat \<Rightarrow> real"
  getHollowWeight :: "real \<Rightarrow> real image"
  multiply :: "real image \<Rightarrow> real image \<Rightarrow> real image"
  decenterDouble2D :: "real image \<Rightarrow> real image"
  decenterUnflip2D :: "real image \<Rightarrow> real image"
  fitTiltShift :: "real image \<Rightarrow> real image \<Rightarrow> real \<Rightarrow> real \<Rightarrow> real
     \<Rightarrow> (real \<times> real \<times> real \<times> real) \<times> real image"
  optimizeTilt :: "complex image \<Rightarrow> real image \<Rightarrow> real \<Rightarrow> real \<Rightarrow> real \<Rightarrow> bool
     \<Rightarrow> real \<times> real \<times> real \<times> real \<Rightarrow> (real \<times> real \<times> real \<times> real) \<times> real image"
  fitOddZernike :: "complex image \<Rightarrow> real image \<Rightarrow> real \<Rightarrow> int \<Rightarrow> real list \<times> real image"
  optimiseOddZernike :: "complex image \<Rightarrow> real image \<Rightarrow> real \<Rightarrow> int \<Rightarrow> real list
     \<Rightarrow> real list \<times> real image"
  extractTilt :: "real list \<Rightarrow> real \<Rightarrow> real \<Rightarrow> real list \<times> real \<times> real"
  tiltContribXY :: "complex image \<Rightarrow> complex image \<Rightarrow> particle \<Rightarrow> real \<Rightarrow> complex image"
  tiltContribW :: "complex image \<Rightarrow> complex image \<Rightarrow> particle \<Rightarrow> real \<Rightarrow> real image"

text \<open>
  Output arguments (\<^verbatim>\<open>&shift_x\<close>, \<^verbatim>\<open>&fit\<close>, \<^verbatim>\<open>tilt_x\<close> by reference) are results.
  \<^verbatim>\<open>extractTilt\<close> receives the coefficient vector as a non-constant lvalue, so it
  also returns the vector it leaves behind.
\<close>

definition vec_get :: "'a list \<Rightarrow> int \<Rightarrow> error + 'a" where
  \<comment> \<open>\<^verbatim>\<open>v[i]\<close> on a \<^verbatim>\<open>std::vector\<close>: defined inside the vector only\<close>
  "vec_get v i = (if 0 \<le> i \<and> i < int (length v) then Inr (v ! nat i) else Inl OutOfBounds)"

definition vec_set :: "'a list \<Rightarrow> int \<Rightarrow> 'a \<Rightarrow> error + 'a list" where
  \<comment> \<open>\<^verbatim>\<open>v[i] = a\<close>\<close>
  "vec_set v i a = (if 0 \<le> i \<and> i < int (length v) then Inr (v[nat i := a]) else Inl OutOfBounds)"

subsection \<open>parametricFit\<close>

definition xyAcc_base :: "string \<Rightarrow> string \<Rightarrow> string" where
  "xyAcc_base outRoot cns = outRoot @ ''_xyAcc_optics-class_'' @ cns"

definition wAcc_name :: "string \<Rightarrow> string \<Rightarrow> string" where
  "wAcc_name outRoot cns = outRoot @ ''_wAcc_optics-class_'' @ cns @ ''.mrc''"

definition pair_exists :: "files \<Rightarrow> string \<Rightarrow> string \<Rightarrow> bool" where
  \<comment> \<open>the three-file test of \<^verbatim>\<open>parametricFit\<close> and \<^verbatim>\<open>isFinished\<close>\<close>
  "pair_exists fs outRoot cns =
     (exists_file fs (xyAcc_base outRoot cns @ ''_real.mrc'')
      \<and> exists_file fs (xyAcc_base outRoot cns @ ''_imag.mrc'')
      \<and> exists_file fs (wAcc_name outRoot cns))"

text \<open>The loop over the batches \<^verbatim>\<open>g < gc\<close>: the running sums and \<^verbatim>\<open>groupUsed[og]\<close>.\<close>

fun merge_batches ::
  "helpers \<Rightarrow> string \<Rightarrow> files \<Rightarrow> string \<Rightarrow> MetaDataTable list
   \<Rightarrow> complex image \<times> real image \<times> bool \<Rightarrow> complex image \<times> real image \<times> bool" where
  "merge_batches h outPath fs cns [] acc = acc"
| "merge_batches h outPath fs cns (mdt # mdts) (xyAccSum, wAccSum, used) =
     (let outRoot = getOutputFilenameRoot h mdt outPath in
      if pair_exists fs outRoot cns then
        (let wAcc = read_image fs (wAcc_name outRoot cns);
             xyAcc = ComplexIO_read fs (xyAcc_base outRoot cns) ''.mrc''
         in merge_batches h outPath fs cns mdts
              (img_add xyAccSum xyAcc, img_add wAccSum wAcc, True))
      else merge_batches h outPath fs cns mdts (xyAccSum, wAccSum, used))"

definition ring_yy :: "TiltEstimator \<Rightarrow> nat \<Rightarrow> real" where
  "ring_yy te y = (if y \<le> te_sh te then real y else real y - real (te_s te))"

definition ring_rp :: "TiltEstimator \<Rightarrow> nat \<Rightarrow> nat \<Rightarrow> real" where
  "ring_rp te y x = sqrt (real x * real x + ring_yy te y * ring_yy te y)"

definition ring_ra :: "TiltEstimator \<Rightarrow> nat \<Rightarrow> nat \<Rightarrow> xdouble" where
  "ring_ra te y x = ddiv (real (te_s te) * te_angpix te) (ring_rp te y x)"

definition ring_step :: "TiltEstimator \<Rightarrow> real image \<Rightarrow> nat \<times> nat \<Rightarrow> real image" where
  "ring_step te wgh p =
     (case p of (y, x) \<Rightarrow>
        if dgt (ring_ra te y x) (te_xring0 te) \<and> dle (ring_ra te y x) (te_xring1 te)
        then img_set wgh y x 0 else wgh)"

definition exclusion_ring :: "TiltEstimator \<Rightarrow> real image \<Rightarrow> real image" where
  "exclusion_ring te wgh =
     (if 0 < te_xring1 te then foldl (ring_step te) wgh (pixels (te_s te) (te_sh te)) else wgh)"

definition nrm_step ::
  "complex image \<Rightarrow> real image \<Rightarrow> complex image \<Rightarrow> nat \<times> nat \<Rightarrow> complex image" where
  \<comment> \<open>\<^verbatim>\<open>Complex / RFLOAT\<close> divides both components\<close>
  "nrm_step xyAccSum wAccSum xyNrm p =
     (case p of (y, x) \<Rightarrow>
        img_set xyNrm y x
          (if 0 < wAccSum y x
           then Complex (Re (xyAccSum y x) / wAccSum y x) (Im (xyAccSum y x) / wAccSum y x)
           else Complex 0 0))"

definition normalise_xy :: "TiltEstimator \<Rightarrow> complex image \<Rightarrow> real image \<Rightarrow> complex image" where
  "normalise_xy te xyAccSum wAccSum =
     foldl (nrm_step xyAccSum wAccSum) img_zero (pixels (te_s te) (te_sh te))"

record fit_state =
  optOut :: table
  logged :: "(string \<times> real image) list"

definition ImageLog_write :: "real image \<Rightarrow> string \<Rightarrow> fit_state \<Rightarrow> fit_state" where
  "ImageLog_write img fn st = st\<lparr>logged := logged st @ [(fn, img)]\<rparr>"

text \<open>What \<^verbatim>\<open>parametricFit\<close> has for a group before it chooses the model.\<close>

record fit_input =
  fi_xyAccSum :: "complex image"
  fi_wAccSum :: "real image"
  fi_groupUsed :: bool
  fi_phase :: "real image"
  fi_wgh :: "real image"
  fi_xyNrm :: "complex image"

definition group_input ::
  "TiltEstimator \<Rightarrow> helpers \<Rightarrow> files \<Rightarrow> MetaDataTable list \<Rightarrow> nat \<Rightarrow> fit_input" where
  "group_input te h fs mdts og =
     (let cns = show_int (int og + 1);
          (xyAccSum, wAccSum, used) =
             merge_batches h (te_outPath te) fs cns mdts (img_zero, img_zero, False);
          phase = getPhase h xyAccSum;
          kmin_px = angToPix h (te_kmin te) (te_s te) og;
          wgh0 = getHollowWeight h kmin_px;
          wgh = exclusion_ring te (multiply h wAccSum wgh0);
          xyNrm = normalise_xy te xyAccSum wAccSum
      in \<lparr>fi_xyAccSum = xyAccSum, fi_wAccSum = wAccSum, fi_groupUsed = used,
          fi_phase = phase, fi_wgh = wgh, fi_xyNrm = xyNrm\<rparr>)"

definition planar_fit ::
  "TiltEstimator \<Rightarrow> helpers \<Rightarrow> string \<Rightarrow> real \<Rightarrow> real \<Rightarrow> fit_input \<Rightarrow> nat \<Rightarrow> fit_state \<Rightarrow> fit_state" where
  "planar_fit te h cns Cs lam fi og st =
     (let (lin, fit) = fitTiltShift h (fi_phase fi) (fi_wgh fi) Cs lam (te_angpix te);
          st = ImageLog_write (decenterUnflip2D h fit)
                 (te_outPath te @ ''beamtilt_delta-phase_lin-fit_optics-class_'' @ cns) st;
          ((shift_x, shift_y, tilt_x, tilt_y), fit) =
             optimizeTilt h (fi_xyNrm fi) (fi_wgh fi) Cs lam (te_angpix te) False lin;
          st = ImageLog_write (decenterUnflip2D h fit)
                 (te_outPath te @ ''beamtilt_delta-phase_iter-fit_optics-class_'' @ cns) st
      in st\<lparr>optOut :=
             setValue EMDL_IMAGE_BEAMTILT_Y (DoubleCell tilt_y) og
               (setValue EMDL_IMAGE_BEAMTILT_X (DoubleCell tilt_x) og (optOut st))\<rparr>)"

definition zernike_fit ::
  "TiltEstimator \<Rightarrow> helpers \<Rightarrow> string \<Rightarrow> real \<Rightarrow> real \<Rightarrow> fit_input \<Rightarrow> real image \<Rightarrow> nat
   \<Rightarrow> fit_state \<Rightarrow> fit_state" where
  "zernike_fit te h cns Cs lam fi phaseFull og st =
     (let (Zernike_coeffs, fit) =
             fitOddZernike h (fi_xyNrm fi) (fi_wgh fi) (te_angpix te) (te_aberr_n_max te);
          fitFull = decenterUnflip2D h fit;
          nm = cns @ ''_N-'' @ show_int (te_aberr_n_max te);
          st = ImageLog_write fitFull
                 (te_outPath te @ ''beamtilt_delta-phase_lin-fit_optics-class_'' @ nm) st;
          st = (if te_debug te
                then ImageLog_write (\<lambda>y x. phaseFull y x - fitFull y x)
                       (te_outPath te @ ''beamtilt_delta-phase_lin-fit_optics-class_'' @ nm
                          @ ''_residual'') st
                else st);
          (Zernike_coeffs_opt, fit) =
             optimiseOddZernike h (fi_xyNrm fi) (fi_wgh fi) (te_angpix te) (te_aberr_n_max te)
               Zernike_coeffs;
          st = ImageLog_write (decenterUnflip2D h fit)
                 (te_outPath te @ ''beamtilt_delta-phase_iter-fit_optics-class_'' @ nm) st;
          (Zernike_coeffs_opt, tilt_x, tilt_y) = extractTilt h Zernike_coeffs_opt Cs lam
      in st\<lparr>optOut :=
             setValue EMDL_IMAGE_ODD_ZERNIKE_COEFFS (VectorCell Zernike_coeffs_opt) og
               (setValue EMDL_IMAGE_BEAMTILT_Y (DoubleCell tilt_y) og
                 (setValue EMDL_IMAGE_BEAMTILT_X (DoubleCell tilt_x) og (optOut st)))\<rparr>)"

text \<open>The body of the loop \<^verbatim>\<open>for (og < ogc)\<close>.\<close>

definition fit_group ::
  "TiltEstimator \<Rightarrow> ObservationModel \<Rightarrow> helpers \<Rightarrow> files \<Rightarrow> MetaDataTable list \<Rightarrow> nat
   \<Rightarrow> fit_state \<Rightarrow> error + fit_state" where
  "fit_group te om h fs mdts og st =
     (case vec_get (om_Cs om) (int og) of Inl e \<Rightarrow> Inl e | Inr Cs \<Rightarrow>
      case vec_get (om_lambda om) (int og) of Inl e \<Rightarrow> Inl e | Inr lam \<Rightarrow>
        (let cns = show_int (int og + 1);
             fi = group_input te h fs mdts og
         in if \<not> fi_groupUsed fi then Inr st
            else
              (let st = (if te_debug te
                         then ImageLog_write (decenterDouble2D h (fi_wgh fi))
                                (te_outPath te @ ''beamtilt_weight-full_optics-class_'' @ cns) st
                         else st);
                   phaseFull = decenterUnflip2D h (fi_phase fi);
                   st = ImageLog_write phaseFull
                          (te_outPath te @ ''beamtilt_delta-phase_per-pixel_optics-class_'' @ cns) st
               in if te_aberr_n_max te < 3
                  then Inr (planar_fit te h cns Cs lam fi og st)
                  else Inr (zernike_fit te h cns Cs lam fi phaseFull og st))))"

fun fit_groups ::
  "TiltEstimator \<Rightarrow> ObservationModel \<Rightarrow> helpers \<Rightarrow> files \<Rightarrow> MetaDataTable list \<Rightarrow> nat list
   \<Rightarrow> fit_state \<Rightarrow> error + fit_state" where
  "fit_groups te om h fs mdts [] st = Inr st"
| "fit_groups te om h fs mdts (og # ogs) st =
     (case fit_group te om h fs mdts og st of
        Inl e \<Rightarrow> Inl e
      | Inr st' \<Rightarrow> fit_groups te om h fs mdts ogs st')"

definition parametricFit ::
  "TiltEstimator \<Rightarrow> ObservationModel \<Rightarrow> helpers \<Rightarrow> files \<Rightarrow> MetaDataTable list
   \<Rightarrow> fit_state \<Rightarrow> error + fit_state" where
  "parametricFit te om h fs mdts st =
     (if \<not> te_ready te then Inl NotInitialized
      else fit_groups te om h fs mdts [0..<om_numberOfOpticsGroups om] st)"

subsection \<open>processMicrograph\<close>

definition getOptGroupsPresent :: "MetaDataTable \<Rightarrow> int list" where
  \<comment> \<open>Modelled from the spec: \<^verbatim>\<open>ObservationModel::getOptGroupsPresent\<close> is declared in
      obs_model.h ("Return the set of optics groups present in partMdt") and defined
      elsewhere; it is the distinct optics groups of the particles (spec 4.3, step 1).\<close>
  "getOptGroupsPresent mdt = remdups (map optics_group mdt)"

definition findUndefinedOptGroups :: "ObservationModel \<Rightarrow> MetaDataTable \<Rightarrow> int list" where
  \<comment> \<open>Modelled from the spec: \<^verbatim>\<open>ObservationModel::findUndefinedOptGroups\<close> is declared in
      obs_model.h ("Find all optics groups used in particles table partMdt that are not
      defined in opticsMdt") and defined elsewhere; the defined groups are 1..N (spec 3).\<close>
  "findUndefinedOptGroups om mdt =
     filter (\<lambda>g. \<not> (1 \<le> g \<and> g \<le> int (om_numberOfOpticsGroups om))) (getOptGroupsPresent mdt)"

definition bind_err :: "error + 'a \<Rightarrow> ('a \<Rightarrow> error + 'b) \<Rightarrow> error + 'b" where
  "bind_err m f = (case m of Inl e \<Rightarrow> Inl e | Inr a \<Rightarrow> f a)"

text \<open>The loop \<^verbatim>\<open>groupToIndex[optGroups[i]] = i\<close> for \<^verbatim>\<open>i < cc\<close>.\<close>

fun fill_groupToIndex :: "int list \<Rightarrow> nat list \<Rightarrow> int list \<Rightarrow> error + int list" where
  "fill_groupToIndex optGroups [] groupToIndex = Inr groupToIndex"
| "fill_groupToIndex optGroups (i # is) groupToIndex =
     bind_err (vec_set groupToIndex (optGroups ! i) (int i))
       (fill_groupToIndex optGroups is)"

definition updateTiltShift ::
  "helpers \<Rightarrow> complex image \<Rightarrow> complex image \<Rightarrow> particle \<Rightarrow> real
   \<Rightarrow> complex image \<times> real image \<Rightarrow> complex image \<times> real image" where
  \<comment> \<open>Modelled from the spec: \<^verbatim>\<open>TiltHelper::updateTiltShift\<close> is outside the source given;
      it computes the particle's phase-difference and weight contribution from the
      (observed, predicted) pair and its CTF and adds it into the two accumulators it is
      handed (spec 4.3, step 3).\<close>
  "updateTiltShift h pred obs ctf angpix acc =
     (img_add (fst acc) (tiltContribXY h pred obs ctf angpix),
      img_add (snd acc) (tiltContribW h pred obs ctf angpix))"

text \<open>
  One iteration of the \<^verbatim>\<open>omp parallel for\<close> loop: particle \<open>p\<close>, run by the thread
  \<open>threadnum\<close>. The CTF is read from row \<open>p\<close> of the particle table.
\<close>

definition particle_step ::
  "TiltEstimator \<Rightarrow> helpers \<Rightarrow> nat \<Rightarrow> int list \<Rightarrow> MetaDataTable
   \<Rightarrow> complex image list \<Rightarrow> complex image list
   \<Rightarrow> complex image list \<times> real image list \<Rightarrow> nat \<times> nat
   \<Rightarrow> error + complex image list \<times> real image list" where
  "particle_step te h cc groupToIndex mdt obs pred acc pt =
     (case pt of (p, threadnum) \<Rightarrow>
        bind_err (vec_get mdt (int p)) (\<lambda>row.
        bind_err (vec_get groupToIndex (optics_group row)) (\<lambda>ci.
        bind_err (vec_get pred (int p)) (\<lambda>pred_p.
        bind_err (vec_get obs (int p)) (\<lambda>obs_p.
        bind_err (vec_get (fst acc) (int cc * int threadnum + ci)) (\<lambda>xy.
        bind_err (vec_get (snd acc) (int cc * int threadnum + ci)) (\<lambda>w.
          (let upd = updateTiltShift h pred_p obs_p row (te_angpix te) (xy, w) in
           bind_err (vec_set (fst acc) (int cc * int threadnum + ci) (fst upd)) (\<lambda>xyAcc.
           bind_err (vec_set (snd acc) (int cc * int threadnum + ci) (snd upd)) (\<lambda>wAcc.
             Inr (xyAcc, wAcc)))))))))))"

fun particle_loop ::
  "TiltEstimator \<Rightarrow> helpers \<Rightarrow> nat \<Rightarrow> int list \<Rightarrow> MetaDataTable
   \<Rightarrow> complex image list \<Rightarrow> complex image list
   \<Rightarrow> (nat \<times> nat) list \<Rightarrow> complex image list \<times> real image list
   \<Rightarrow> error + complex image list \<times> real image list" where
  "particle_loop te h cc groupToIndex mdt obs pred [] acc = Inr acc"
| "particle_loop te h cc groupToIndex mdt obs pred (pt # pts) acc =
     bind_err (particle_step te h cc groupToIndex mdt obs pred acc pt)
       (particle_loop te h cc groupToIndex mdt obs pred pts)"

text \<open>
  A schedule lists the iterations in the order they take effect, each with the number
  of the thread that runs it: every \<open>p < pc\<close> once, by a thread of the team.
\<close>

definition valid_schedule :: "TiltEstimator \<Rightarrow> nat \<Rightarrow> (nat \<times> nat) list \<Rightarrow> bool" where
  "valid_schedule te pc sched =
     (distinct (map fst sched) \<and> set (map fst sched) = {0..<pc}
      \<and> list_all (\<lambda>pt. snd pt < te_nr_omp_threads te) sched)"

text \<open>
  The inner loop \<^verbatim>\<open>for (threadnum < nr_omp_threads)\<close> of the reduction; the index
  \<open>cc * threadnum + ci\<close> is inside the \<open>nr_omp_threads * cc\<close> accumulators.
\<close>

definition thread_sum :: "'a::{plus,zero} image list \<Rightarrow> nat \<Rightarrow> nat \<Rightarrow> nat \<Rightarrow> 'a image" where
  "thread_sum acc cc nthreads ci =
     foldl (\<lambda>accSum threadnum. img_add accSum (acc ! (cc * threadnum + ci))) img_zero [0..<nthreads]"

definition group_writes ::
  "TiltEstimator \<Rightarrow> helpers \<Rightarrow> MetaDataTable \<Rightarrow> int list
   \<Rightarrow> complex image list \<times> real image list \<Rightarrow> nat \<Rightarrow> (string \<times> real image) list" where
  "group_writes te h mdt optGroups acc ci =
     (let cc = length optGroups;
          xyAccSum = thread_sum (fst acc) cc (te_nr_omp_threads te) ci;
          wAccSum = thread_sum (snd acc) cc (te_nr_omp_threads te) ci;
          outRoot = getOutputFilenameRoot h mdt (te_outPath te);
          sts = show_int (optGroups ! ci)
      in ComplexIO_write xyAccSum (outRoot @ ''_xyAcc_optics-class_'' @ sts) ''.mrc''
         @ [(outRoot @ ''_wAcc_optics-class_'' @ sts @ ''.mrc'', wAccSum)])"

text \<open>The result is the sequence of files written, in the order of the calls.\<close>

definition processMicrograph ::
  "TiltEstimator \<Rightarrow> ObservationModel \<Rightarrow> helpers \<Rightarrow> MetaDataTable
   \<Rightarrow> complex image list \<Rightarrow> complex image list \<Rightarrow> (nat \<times> nat) list
   \<Rightarrow> error + (string \<times> real image) list" where
  "processMicrograph te om h mdt obs pred sched =
     (if \<not> te_ready te then Inl NotInitialized
      else
        (let optGroups = getOptGroupsPresent mdt;
             cc = length optGroups
         in bind_err (fill_groupToIndex optGroups [0..<cc]
                        (replicate (om_numberOfOpticsGroups om + 1) (- 1))) (\<lambda>groupToIndex.
            bind_err (particle_loop te h cc groupToIndex mdt obs pred sched
                        (replicate (te_nr_omp_threads te * cc) img_zero,
                         replicate (te_nr_omp_threads te * cc) img_zero)) (\<lambda>acc.
              Inr (concat (map (group_writes te h mdt optGroups acc) [0..<cc]))))))"

subsection \<open>isFinished\<close>

fun isFinished_loop :: "files \<Rightarrow> string \<Rightarrow> int list \<Rightarrow> bool" where
  "isFinished_loop fs outRoot [] = True"
| "isFinished_loop fs outRoot (g # ogp) =
     (if \<not> exists_file fs (outRoot @ ''_xyAcc_optics-class_'' @ show_int g @ ''_real.mrc'')
         \<or> \<not> exists_file fs (outRoot @ ''_xyAcc_optics-class_'' @ show_int g @ ''_imag.mrc'')
         \<or> \<not> exists_file fs (outRoot @ ''_wAcc_optics-class_'' @ show_int g @ ''.mrc'')
      then False
      else isFinished_loop fs outRoot ogp)"

definition isFinished :: "TiltEstimator \<Rightarrow> helpers \<Rightarrow> files \<Rightarrow> MetaDataTable \<Rightarrow> error + bool" where
  "isFinished te h fs mdt =
     (if \<not> te_ready te then Inl NotInitialized
      else Inr (isFinished_loop fs (getOutputFilenameRoot h mdt (te_outPath te))
                  (getOptGroupsPresent mdt)))"

subsection \<open>Notions used in the statements\<close>

text \<open>
  A group is used when some batch has its complete checkpoint pair on disk; this is the
  value \<^verbatim>\<open>groupUsed[og]\<close> has after the loop over the batches. The other two name the
  values \<^verbatim>\<open>parametricFit\<close> writes for a used group in each branch.
\<close>

definition group_used :: "TiltEstimator \<Rightarrow> helpers \<Rightarrow> files \<Rightarrow> MetaDataTable list \<Rightarrow> nat \<Rightarrow> bool" where
  "group_used te h fs mdts og =
     list_ex (\<lambda>mdt. pair_exists fs (getOutputFilenameRoot h mdt (te_outPath te))
                      (show_int (int og + 1))) mdts"

definition planar_tilt :: "TiltEstimator \<Rightarrow> ObservationModel \<Rightarrow> helpers \<Rightarrow> fit_input \<Rightarrow> nat \<Rightarrow> real \<times> real" where
  "planar_tilt te om h fi og =
     snd (snd (fst (optimizeTilt h (fi_xyNrm fi) (fi_wgh fi) (om_Cs om ! og) (om_lambda om ! og)
        (te_angpix te) False
        (fst (fitTiltShift h (fi_phase fi) (fi_wgh fi) (om_Cs om ! og) (om_lambda om ! og)
           (te_angpix te))))))"

definition zernike_result ::
  "TiltEstimator \<Rightarrow> ObservationModel \<Rightarrow> helpers \<Rightarrow> fit_input \<Rightarrow> nat \<Rightarrow> real list \<times> real \<times> real" where
  "zernike_result te om h fi og =
     extractTilt h
       (fst (optimiseOddZernike h (fi_xyNrm fi) (fi_wgh fi) (te_angpix te) (te_aberr_n_max te)
          (fst (fitOddZernike h (fi_xyNrm fi) (fi_wgh fi) (te_angpix te) (te_aberr_n_max te)))))
       (om_Cs om ! og) (om_lambda om ! og)"

text \<open>
  The plain sums of the contributions of the particles of group \<open>g\<close> in a batch, in the
  order of the particle table.
\<close>

definition group_sum_xy ::
  "helpers \<Rightarrow> real \<Rightarrow> MetaDataTable \<Rightarrow> complex image list \<Rightarrow> complex image list \<Rightarrow> int
   \<Rightarrow> complex image" where
  "group_sum_xy h angpix mdt obs pred g =
     (\<lambda>y x. sum_list (map (\<lambda>p. tiltContribXY h (pred ! p) (obs ! p) (mdt ! p) angpix y x)
                 (filter (\<lambda>p. optics_group (mdt ! p) = g) [0..<length mdt])))"

definition group_sum_w ::
  "helpers \<Rightarrow> real \<Rightarrow> MetaDataTable \<Rightarrow> complex image list \<Rightarrow> complex image list \<Rightarrow> int
   \<Rightarrow> real image" where
  "group_sum_w h angpix mdt obs pred g =
     (\<lambda>y x. sum_list (map (\<lambda>p. tiltContribW h (pred ! p) (obs ! p) (mdt ! p) angpix y x)
                 (filter (\<lambda>p. optics_group (mdt ! p) = g) [0..<length mdt])))"

text \<open>
  What one iteration needs to stay inside its vectors, and the accumulator column
  \<^verbatim>\<open>ci\<close> it is sent to.
\<close>

definition step_ok ::
  "TiltEstimator \<Rightarrow> nat \<Rightarrow> int list \<Rightarrow> MetaDataTable \<Rightarrow> complex image list \<Rightarrow> complex image list
   \<Rightarrow> nat \<times> nat \<Rightarrow> bool" where
  "step_ok te cc gti mdt obs pred pt =
     (fst pt < length mdt \<and> fst pt < length obs \<and> fst pt < length pred
      \<and> snd pt < te_nr_omp_threads te
      \<and> 0 \<le> optics_group (mdt ! fst pt) \<and> optics_group (mdt ! fst pt) < int (length gti)
      \<and> 0 \<le> gti ! nat (optics_group (mdt ! fst pt))
      \<and> gti ! nat (optics_group (mdt ! fst pt)) < int cc)"

definition ci_of :: "int list \<Rightarrow> MetaDataTable \<Rightarrow> nat \<Rightarrow> nat" where
  "ci_of gti mdt p = nat (gti ! nat (optics_group (mdt ! p)))"

text \<open>
  The files of a batch when every group holds its plain sums: for each group present,
  the real component, the imaginary component and the weight image.
\<close>

definition expected_writes ::
  "helpers \<Rightarrow> real \<Rightarrow> string \<Rightarrow> MetaDataTable \<Rightarrow> complex image list \<Rightarrow> complex image list
   \<Rightarrow> (string \<times> real image) list" where
  "expected_writes h angpix outPath mdt obs pred =
     concat (map (\<lambda>g.
        ComplexIO_write (group_sum_xy h angpix mdt obs pred g)
          (getOutputFilenameRoot h mdt outPath @ ''_xyAcc_optics-class_'' @ show_int g) ''.mrc''
        @ [(getOutputFilenameRoot h mdt outPath @ ''_wAcc_optics-class_'' @ show_int g @ ''.mrc'',
            group_sum_w h angpix mdt obs pred g)])
       (getOptGroupsPresent mdt))"

text \<open>The three final file names of the pair of a batch (by its output root) and a group.\<close>

definition pair_names :: "string \<Rightarrow> int \<Rightarrow> string list" where
  "pair_names outRoot g =
     [xyAcc_base outRoot (show_int g) @ ''_real.mrc'',
      xyAcc_base outRoot (show_int g) @ ''_imag.mrc'',
      wAcc_name outRoot (show_int g)]"

text \<open>
  A batch is a particle table with its observed and predicted images. Batches have
  disjoint keys when no file name of a pair of one is a file name of a pair of another
  (spec 4.4: each batch writes to a disjoint key space).
\<close>

type_synonym batch = "MetaDataTable \<times> complex image list \<times> complex image list"

definition batch_writes :: "helpers \<Rightarrow> real \<Rightarrow> string \<Rightarrow> batch \<Rightarrow> (string \<times> real image) list" where
  "batch_writes h angpix outPath b =
     expected_writes h angpix outPath (fst b) (fst (snd b)) (snd (snd b))"

fun disjoint_keys :: "helpers \<Rightarrow> string \<Rightarrow> batch list \<Rightarrow> bool" where
  "disjoint_keys h outPath [] = True"
| "disjoint_keys h outPath (b # bs) =
     ((\<forall>b' \<in> set bs. \<forall>g g'.
         set (pair_names (getOutputFilenameRoot h (fst b) outPath) g)
           \<inter> set (pair_names (getOutputFilenameRoot h (fst b') outPath) g') = {})
      \<and> disjoint_keys h outPath bs)"
subsection \<open>Test data\<close>

text \<open>
  A two-by-two half-spectrum, one optics group, stand-ins for the external routines,
  and a file system that holds the checkpoint pair of one batch.
\<close>

definition ex_te :: TiltEstimator where
  "ex_te = \<lparr>te_ready = True, te_s = 2, te_sh = 2, te_nr_omp_threads = 2, te_debug = False,
            te_outPath = ''o/'', te_angpix = 1, te_kmin = 20, te_aberr_n_max = 0,
            te_xring0 = 1, te_xring1 = 3\<rparr>"

definition ex_te_noring :: TiltEstimator where
  "ex_te_noring = ex_te\<lparr>te_xring0 := - 1, te_xring1 := - 1\<rparr>"

definition ex_om :: ObservationModel where
  "ex_om = \<lparr>om_Cs = [27 / 10], om_lambda = [1 / 50], om_numberOfOpticsGroups = 1\<rparr>"

definition ex_h :: helpers where
  "ex_h = \<lparr>getOutputFilenameRoot = (\<lambda>mdt outPath. outPath @ replicate (length mdt) CHR ''m''),
           getPhase = (\<lambda>img y x. Im (img y x)),
           angToPix = (\<lambda>a s og. a),
           getHollowWeight = (\<lambda>k y x. 1),
           multiply = (\<lambda>a b y x. a y x * b y x),
           decenterDouble2D = (\<lambda>img. img),
           decenterUnflip2D = (\<lambda>img. img),
           fitTiltShift = (\<lambda>phase wgh Cs lam angpix. ((0, 0, phase 0 1, phase 1 0), phase)),
           optimizeTilt = (\<lambda>xy wgh Cs lam angpix b lin.
              ((fst lin, fst (snd lin), fst (snd (snd lin)) + 1, snd (snd (snd lin)) + 2), wgh)),
           fitOddZernike = (\<lambda>xy wgh angpix n. ([Re (xy 0 1), Im (xy 0 1)], wgh)),
           optimiseOddZernike = (\<lambda>xy wgh angpix n cs. (map (\<lambda>c. c + 1) cs, wgh)),
           extractTilt = (\<lambda>cs Cs lam. (cs, hd cs, last cs)),
           tiltContribXY = (\<lambda>pred obs ctf angpix y x. cnj (pred y x) * obs y x),
           tiltContribW = (\<lambda>pred obs ctf angpix y x. (cmod (pred y x))\<^sup>2)\<rparr>"

definition ex_mdt :: MetaDataTable where
  "ex_mdt = [\<lparr>optics_group = 1, ctf_params = []\<rparr>]"

definition ex_fs :: files where
  "ex_fs = [''o/m_xyAcc_optics-class_1_real.mrc'' \<mapsto> (\<lambda>y x. 6),
            ''o/m_xyAcc_optics-class_1_imag.mrc'' \<mapsto> (\<lambda>y x. 8),
            ''o/m_wAcc_optics-class_1.mrc'' \<mapsto> (\<lambda>y x. 2)]"

definition ex_st :: fit_state where
  "ex_st = \<lparr>optOut = [(0, EMDL_OTHER ''rlnVoltage'') \<mapsto> DoubleCell 300,
                       (0, EMDL_IMAGE_BEAMTILT_X) \<mapsto> DoubleCell 0], logged = []\<rparr>"

definition ex_te_zernike :: TiltEstimator where
  "ex_te_zernike = ex_te\<lparr>te_aberr_n_max := 4\<rparr>"

definition ex_om2 :: ObservationModel where
  "ex_om2 = \<lparr>om_Cs = [27 / 10, 27 / 10], om_lambda = [1 / 50, 1 / 50], om_numberOfOpticsGroups = 2\<rparr>"

definition ex_mdt2 :: MetaDataTable where
  "ex_mdt2 = [\<lparr>optics_group = 1, ctf_params = []\<rparr>, \<lparr>optics_group = 2, ctf_params = []\<rparr>]"

definition ex_img :: "complex image" where
  "ex_img = (\<lambda>y x. Complex 1 2)"

definition ex_mdt0 :: MetaDataTable where
  "ex_mdt0 = [\<lparr>optics_group = 0, ctf_params = []\<rparr>]"

definition ex_mdt5 :: MetaDataTable where
  "ex_mdt5 = [\<lparr>optics_group = 5, ctf_params = []\<rparr>]"

definition ex_bs :: "batch list" where
  "ex_bs = [(ex_mdt, [ex_img], [ex_img]), (ex_mdt2, [ex_img, ex_img], [ex_img, ex_img])]"

section \<open>Properties\<close>

subsection \<open>The pixel loops of parametricFit\<close>


lemma in_pixels: "(p \<in> set (pixels s sh)) = (fst p < s \<and> snd p < sh)"
  by (cases p) (force simp: pixels_def)

lemma foldl_ring_step:
  "foldl (ring_step te) wgh ps y x =
     (if (y, x) \<in> set ps \<and> dgt (ring_ra te y x) (te_xring0 te) \<and> dle (ring_ra te y x) (te_xring1 te)
      then 0 else wgh y x)"
proof (induction ps arbitrary: wgh)
  case Nil
  show ?case by simp
next
  case (Cons p ps)
  obtain y' x' where p: "p = (y', x')" by (cases p)
  show ?case
    unfolding foldl_Cons Cons.IH
    by (auto simp: p ring_step_def img_set_def)
qed

lemma foldl_nrm_step:
  "foldl (nrm_step xy w) img ps y x =
     (if (y, x) \<in> set ps
      then (if 0 < w y x then Complex (Re (xy y x) / w y x) (Im (xy y x) / w y x) else Complex 0 0)
      else img y x)"
proof (induction ps arbitrary: img)
  case Nil
  show ?case by simp
next
  case (Cons p ps)
  obtain y' x' where p: "p = (y', x')" by (cases p)
  show ?case
    unfolding foldl_Cons Cons.IH
    by (auto simp: p nrm_step_def img_set_def)
qed

lemma complex_div_real: "r \<noteq> 0 \<Longrightarrow> Complex (Re z / r) (Im z / r) = z / complex_of_real r"
  by (simp add: complex_eq_iff)

lemma ddiv_zero_not_in_ring: "\<not> (dgt (ddiv a 0) lo \<and> dle (ddiv a 0) hi)"
  by (simp add: ddiv_def)

lemma ring_rp_origin: "ring_rp te 0 0 = 0"
  by (simp add: ring_rp_def ring_yy_def)








lemma show_int_0: "show_int 0 = ''0''"
  by (simp add: show_int_def show_nat.simps [of 0] digit_char_def)

lemma show_int_1: "show_int 1 = ''1''"
  by (simp add: show_int_def show_nat.simps [of "Suc 0"] digit_char_def)

lemma show_int_2: "show_int 2 = ''2''"
  by (simp add: show_int_def show_nat.simps [of 2] digit_char_def)

lemma ex_merge:
  "merge_batches ex_h ''o/'' ex_fs ''1'' [ex_mdt] (img_zero, img_zero, False)
     = (\<lambda>y x. Complex 6 8, \<lambda>y x. 2, True)"
  by (simp add: ex_h_def ex_mdt_def ex_fs_def pair_exists_def exists_file_def xyAcc_base_def
      wAcc_name_def read_image_def ComplexIO_read_def img_add_def img_zero_def Let_def)

lemma ex_group_input_acc:
  "fi_xyAccSum (group_input ex_te ex_h ex_fs [ex_mdt] 0) = (\<lambda>y x. Complex 6 8)"
  "fi_wAccSum (group_input ex_te ex_h ex_fs [ex_mdt] 0) = (\<lambda>y x. 2)"
  "fi_groupUsed (group_input ex_te ex_h ex_fs [ex_mdt] 0)"
  using ex_merge by (simp_all add: group_input_def show_int_1 Let_def ex_te_def)

text \<open>
  C2. At every pixel of the half-spectrum (\<open>y < s\<close>, \<open>x < sh\<close>) the normalised field
  \<^verbatim>\<open>xyNrm\<close> of \<^verbatim>\<open>parametricFit\<close> is the merged complex sum divided by the merged weight
  where that weight is greater than 0, and the complex zero elsewhere.
\<close>

theorem normalized_field_guarded:
  assumes "y < te_s te" and "x < te_sh te"
  shows "fi_xyNrm (group_input te h fs mdts og) y x =
           (if 0 < fi_wAccSum (group_input te h fs mdts og) y x
            then fi_xyAccSum (group_input te h fs mdts og) y x
                   / complex_of_real (fi_wAccSum (group_input te h fs mdts og) y x)
            else 0)"
proof -
  obtain xy w u where m:
    "merge_batches h (te_outPath te) fs (show_int (int og + 1)) mdts (img_zero, img_zero, False)
       = (xy, w, u)"
    by (cases "merge_batches h (te_outPath te) fs (show_int (int og + 1)) mdts
                 (img_zero, img_zero, False)")
  have px: "(y, x) \<in> set (pixels (te_s te) (te_sh te))"
    using assms by (simp add: in_pixels)
  have "normalise_xy te xy w y x = (if 0 < w y x then xy y x / complex_of_real (w y x) else 0)"
    using px by (simp add: normalise_xy_def foldl_nrm_step complex_div_real zero_complex.code)
  then show ?thesis
    by (simp add: group_input_def m Let_def)
qed

theorem normalized_field_guarded_witness:
  "(0::nat) < te_s ex_te \<and> (1::nat) < te_sh ex_te
   \<and> fi_xyNrm (group_input ex_te ex_h ex_fs [ex_mdt] 0) 0 1 = Complex 3 4"
proof -
  have a: "(0::nat) < te_s ex_te" and b: "(1::nat) < te_sh ex_te"
    by (simp_all add: ex_te_def)
  have "fi_xyNrm (group_input ex_te ex_h ex_fs [ex_mdt] 0) 0 1 = Complex 6 8 / complex_of_real 2"
    unfolding normalized_field_guarded [OF a b] ex_group_input_acc by simp
  also have "Complex 6 8 / complex_of_real 2 = Complex 3 4"
    by (simp add: complex_eq_iff)
  finally show ?thesis using a b by simp
qed




lemma exclusion_ring_pixel:
  "exclusion_ring te wgh y x =
     (if 0 < te_xring1 te \<and> y < te_s te \<and> x < te_sh te
         \<and> dgt (ring_ra te y x) (te_xring0 te) \<and> dle (ring_ra te y x) (te_xring1 te)
      then 0 else wgh y x)"
  by (simp add: exclusion_ring_def foldl_ring_step in_pixels)

lemma group_input_wgh:
  "fi_wgh (group_input te h fs mdts og) =
     exclusion_ring te (multiply h (fi_wAccSum (group_input te h fs mdts og))
        (getHollowWeight h (angToPix h (te_kmin te) (te_s te) og)))"
  by (simp add: group_input_def Let_def split: prod.splits)

text \<open>
  C8. When \<^verbatim>\<open>xring1 > 0\<close>, the mask \<^verbatim>\<open>wgh\<close> is 0 at every pixel of the half-spectrum whose
  distance \<^verbatim>\<open>ra = s * angpix / rp\<close> satisfies \<^verbatim>\<open>ra > xring0 && ra <= xring1\<close>, whatever
  the accumulated weight there; when \<^verbatim>\<open>xring1 <= 0\<close> the mask is the product of the
  accumulated weight and the hollow weight, unchanged by the ring.
\<close>

theorem exclusion_ring_mask:
  "(0 < te_xring1 te \<longrightarrow>
      (\<forall>y < te_s te. \<forall>x < te_sh te.
         dgt (ddiv (real (te_s te) * te_angpix te) (ring_rp te y x)) (te_xring0 te)
         \<and> dle (ddiv (real (te_s te) * te_angpix te) (ring_rp te y x)) (te_xring1 te)
         \<longrightarrow> fi_wgh (group_input te h fs mdts og) y x = 0))
   \<and> (te_xring1 te \<le> 0 \<longrightarrow>
        fi_wgh (group_input te h fs mdts og) =
          multiply h (fi_wAccSum (group_input te h fs mdts og))
            (getHollowWeight h (angToPix h (te_kmin te) (te_s te) og)))"
proof (intro conjI impI allI)
  fix y x
  assume "0 < te_xring1 te" "y < te_s te" "x < te_sh te"
    "dgt (ddiv (real (te_s te) * te_angpix te) (ring_rp te y x)) (te_xring0 te)
     \<and> dle (ddiv (real (te_s te) * te_angpix te) (ring_rp te y x)) (te_xring1 te)"
  then show "fi_wgh (group_input te h fs mdts og) y x = 0"
    by (simp add: group_input_wgh exclusion_ring_pixel ring_ra_def)
next
  assume "te_xring1 te \<le> 0"
  then show "fi_wgh (group_input te h fs mdts og) =
          multiply h (fi_wAccSum (group_input te h fs mdts og))
            (getHollowWeight h (angToPix h (te_kmin te) (te_s te) og))"
    by (simp add: group_input_wgh exclusion_ring_def)
qed

lemma ex_ring_rp: "ring_rp ex_te 0 1 = 1"
  by (simp add: ring_rp_def ring_yy_def ex_te_def)

lemma ex_noring_acc:
  "fi_wAccSum (group_input ex_te_noring ex_h ex_fs [ex_mdt] 0) = (\<lambda>y x. 2)"
  using ex_merge by (simp add: group_input_def show_int_1 Let_def ex_te_def ex_te_noring_def)

theorem exclusion_ring_mask_witness:
  "fi_wAccSum (group_input ex_te ex_h ex_fs [ex_mdt] 0) 0 1 = 2
   \<and> fi_wgh (group_input ex_te ex_h ex_fs [ex_mdt] 0) 0 1 = 0
   \<and> fi_wgh (group_input ex_te_noring ex_h ex_fs [ex_mdt] 0) 0 1 = 2"
proof -
  have pos: "0 < te_xring1 ex_te" and y: "0 < te_s ex_te" and x: "1 < te_sh ex_te"
    by (simp_all add: ex_te_def)
  have hit: "dgt (ddiv (real (te_s ex_te) * te_angpix ex_te) (ring_rp ex_te 0 1)) (te_xring0 ex_te)
     \<and> dle (ddiv (real (te_s ex_te) * te_angpix ex_te) (ring_rp ex_te 0 1)) (te_xring1 ex_te)"
    unfolding ex_ring_rp by (simp add: ex_te_def ddiv_def)
  have neg: "te_xring1 ex_te_noring \<le> 0"
    by (simp add: ex_te_noring_def)
  have "fi_wgh (group_input ex_te ex_h ex_fs [ex_mdt] 0) 0 1 = 0"
    using exclusion_ring_mask [of ex_te ex_h ex_fs "[ex_mdt]" 0] pos y x hit by blast
  moreover have "fi_wgh (group_input ex_te_noring ex_h ex_fs [ex_mdt] 0) 0 1 = 2"
    using exclusion_ring_mask [of ex_te_noring ex_h ex_fs "[ex_mdt]" 0] neg
    by (simp add: ex_noring_acc) (simp add: ex_h_def ex_te_noring_def)
  ultimately show ?thesis
    by (simp add: ex_group_input_acc)
qed

text \<open>
  C10. At the zero-frequency pixel the divisor \<^verbatim>\<open>rp\<close> is exactly 0 and no case of the
  code sets it apart: whether the ring zeroes the pixel is the outcome of the two
  comparisons on \<^verbatim>\<open>s * angpix / 0\<close>. That quotient is infinite or not a number, so for
  finite radii the comparisons never both hold and the pixel keeps its weight.
\<close>

theorem ring_division_unguarded:
  "ring_rp te 0 0 = 0
   \<and> ring_ra te 0 0 = ddiv (real (te_s te) * te_angpix te) 0
   \<and> exclusion_ring te wgh 0 0 =
       (if 0 < te_xring1 te \<and> 0 < te_s te \<and> 0 < te_sh te
           \<and> dgt (ddiv (real (te_s te) * te_angpix te) 0) (te_xring0 te)
           \<and> dle (ddiv (real (te_s te) * te_angpix te) 0) (te_xring1 te)
        then 0 else wgh 0 0)
   \<and> exclusion_ring te wgh 0 0 = wgh 0 0"
  by (simp add: ring_rp_origin ring_ra_def exclusion_ring_pixel ddiv_zero_not_in_ring)

theorem ring_division_unguarded_witness:
  "ring_ra ex_te 0 0 = PInf \<and> exclusion_ring ex_te (\<lambda>y x. 5) 0 0 = 5"
  using ring_division_unguarded [of ex_te "\<lambda>y x. 5"]
  by (simp add: ddiv_def ex_te_def)

subsection \<open>The loop over the optics groups\<close>

lemma merge_batches_used:
  "snd (snd (merge_batches h outPath fs cns mdts (xy, w, u))) =
     (u \<or> list_ex (\<lambda>mdt. pair_exists fs (getOutputFilenameRoot h mdt outPath) cns) mdts)"
  by (induction mdts arbitrary: xy w u) (auto simp: Let_def)

lemma merge_batches_filter:
  "merge_batches h outPath fs cns mdts (xy, w, u) =
   merge_batches h outPath fs cns
     (filter (\<lambda>mdt. pair_exists fs (getOutputFilenameRoot h mdt outPath) cns) mdts) (xy, w, u)"
  by (induction mdts arbitrary: xy w u) (auto simp: Let_def)

lemma group_input_used:
  "fi_groupUsed (group_input te h fs mdts og) = group_used te h fs mdts og"
proof -
  obtain xy w u where m:
    "merge_batches h (te_outPath te) fs (show_int (int og + 1)) mdts (img_zero, img_zero, False)
       = (xy, w, u)"
    by (cases "merge_batches h (te_outPath te) fs (show_int (int og + 1)) mdts
                 (img_zero, img_zero, False)")
  have "u = snd (snd (merge_batches h (te_outPath te) fs (show_int (int og + 1)) mdts
                 (img_zero, img_zero, False)))"
    by (simp add: m)
  then have "u = group_used te h fs mdts og"
    by (simp add: merge_batches_used group_used_def)
  then show ?thesis
    by (simp add: group_input_def m Let_def)
qed

lemma group_input_filter:
  "group_input te h fs mdts og =
   group_input te h fs
     (filter (\<lambda>mdt. pair_exists fs (getOutputFilenameRoot h mdt (te_outPath te))
                      (show_int (int og + 1))) mdts) og"
  unfolding group_input_def
  by (subst merge_batches_filter) (simp add: Let_def)

lemma fit_group_unused:
  assumes "og < length (om_Cs om)" and "og < length (om_lambda om)"
    and "\<not> group_used te h fs mdts og"
  shows "fit_group te om h fs mdts og st = Inr st"
  using assms by (simp add: fit_group_def vec_get_def group_input_used Let_def)

lemma fit_group_total:
  assumes "og < length (om_Cs om)" and "og < length (om_lambda om)"
  shows "\<exists>st'. fit_group te om h fs mdts og st = Inr st'"
  using assms by (simp add: fit_group_def vec_get_def Let_def)

lemma fit_group_Inr_bounds:
  assumes "fit_group te om h fs mdts og st = Inr st'"
  shows "og < length (om_Cs om) \<and> og < length (om_lambda om)"
  using assms by (auto simp: fit_group_def vec_get_def split: if_splits sum.splits)

lemma planar_fit_optOut:
  "optOut (planar_fit te h cns Cs lam fi og st) =
     setValue EMDL_IMAGE_BEAMTILT_Y
       (DoubleCell (snd (snd (snd (fst (optimizeTilt h (fi_xyNrm fi) (fi_wgh fi) Cs lam
          (te_angpix te) False
          (fst (fitTiltShift h (fi_phase fi) (fi_wgh fi) Cs lam (te_angpix te))))))))) og
       (setValue EMDL_IMAGE_BEAMTILT_X
          (DoubleCell (fst (snd (snd (fst (optimizeTilt h (fi_xyNrm fi) (fi_wgh fi) Cs lam
          (te_angpix te) False
          (fst (fitTiltShift h (fi_phase fi) (fi_wgh fi) Cs lam (te_angpix te))))))))) og
          (optOut st))"
  by (simp add: planar_fit_def Let_def ImageLog_write_def split: prod.splits)

lemma zernike_fit_optOut:
  "optOut (zernike_fit te h cns Cs lam fi phaseFull og st) =
     (let r = extractTilt h
       (fst (optimiseOddZernike h (fi_xyNrm fi) (fi_wgh fi) (te_angpix te) (te_aberr_n_max te)
          (fst (fitOddZernike h (fi_xyNrm fi) (fi_wgh fi) (te_angpix te) (te_aberr_n_max te)))))
       Cs lam
      in setValue EMDL_IMAGE_ODD_ZERNIKE_COEFFS (VectorCell (fst r)) og
           (setValue EMDL_IMAGE_BEAMTILT_Y (DoubleCell (snd (snd r))) og
             (setValue EMDL_IMAGE_BEAMTILT_X (DoubleCell (fst (snd r))) og (optOut st))))"
  by (simp add: zernike_fit_def Let_def ImageLog_write_def split: prod.splits)

lemma fit_group_optOut:
  assumes "fit_group te om h fs mdts og st = Inr st'"
  shows "optOut st' =
     (if \<not> group_used te h fs mdts og then optOut st
      else if te_aberr_n_max te < 3 then
        setValue EMDL_IMAGE_BEAMTILT_Y
          (DoubleCell (snd (planar_tilt te om h (group_input te h fs mdts og) og))) og
          (setValue EMDL_IMAGE_BEAMTILT_X
             (DoubleCell (fst (planar_tilt te om h (group_input te h fs mdts og) og))) og
             (optOut st))
      else
        setValue EMDL_IMAGE_ODD_ZERNIKE_COEFFS
          (VectorCell (fst (zernike_result te om h (group_input te h fs mdts og) og))) og
          (setValue EMDL_IMAGE_BEAMTILT_Y
             (DoubleCell (snd (snd (zernike_result te om h (group_input te h fs mdts og) og)))) og
             (setValue EMDL_IMAGE_BEAMTILT_X
                (DoubleCell (fst (snd (zernike_result te om h (group_input te h fs mdts og) og)))) og
                (optOut st))))"
proof -
  have b: "og < length (om_Cs om)" "og < length (om_lambda om)"
    using fit_group_Inr_bounds [OF assms] by simp_all
  show ?thesis
    using assms b
    by (auto simp: fit_group_def vec_get_def group_input_used Let_def planar_fit_optOut
        zernike_fit_optOut planar_tilt_def zernike_result_def ImageLog_write_def
        split: if_splits)
qed

lemma fit_groups_Cons_Inr:
  "fit_groups te om h fs mdts (og # ogs) st = Inr st' \<longleftrightarrow>
     (\<exists>st1. fit_group te om h fs mdts og st = Inr st1 \<and> fit_groups te om h fs mdts ogs st1 = Inr st')"
  by (simp split: sum.splits)

lemma fit_group_frame:
  assumes "fit_group te om h fs mdts og st = Inr st'"
    and "optOut st' (row, l) \<noteq> optOut st (row, l)"
  shows "row = og \<and> group_used te h fs mdts og
         \<and> (l = EMDL_IMAGE_BEAMTILT_X \<or> l = EMDL_IMAGE_BEAMTILT_Y
            \<or> (l = EMDL_IMAGE_ODD_ZERNIKE_COEFFS \<and> 3 \<le> te_aberr_n_max te))"
  using assms(2) unfolding fit_group_optOut [OF assms(1)]
  by (auto simp: setValue_def split: if_splits)

lemma fit_groups_frame:
  assumes "fit_groups te om h fs mdts ogs st = Inr st'"
    and "optOut st' (row, l) \<noteq> optOut st (row, l)"
  shows "row \<in> set ogs \<and> group_used te h fs mdts row
         \<and> (l = EMDL_IMAGE_BEAMTILT_X \<or> l = EMDL_IMAGE_BEAMTILT_Y
            \<or> (l = EMDL_IMAGE_ODD_ZERNIKE_COEFFS \<and> 3 \<le> te_aberr_n_max te))"
  using assms
proof (induction ogs arbitrary: st)
  case Nil
  then show ?case by simp
next
  case (Cons og ogs)
  from Cons.prems(1) obtain st1 where
    s1: "fit_group te om h fs mdts og st = Inr st1" and
    s2: "fit_groups te om h fs mdts ogs st1 = Inr st'"
    unfolding fit_groups_Cons_Inr by blast
  show ?case
  proof (cases "optOut st' (row, l) = optOut st1 (row, l)")
    case True
    with Cons.prems(2) have "optOut st1 (row, l) \<noteq> optOut st (row, l)" by simp
    from fit_group_frame [OF s1 this] show ?thesis by simp
  next
    case False
    from Cons.IH [OF s2 False] show ?thesis by simp
  qed
qed

lemma fit_groups_total:
  assumes "\<forall>og \<in> set ogs. og < length (om_Cs om) \<and> og < length (om_lambda om)"
  shows "\<exists>st'. fit_groups te om h fs mdts ogs st = Inr st'"
  using assms
proof (induction ogs arbitrary: st)
  case Nil
  then show ?case by simp
next
  case (Cons og ogs)
  then obtain st1 where "fit_group te om h fs mdts og st = Inr st1"
    using fit_group_total [of og om te h fs mdts st] by auto
  with Cons show ?case by simp
qed

lemma fit_groups_skip_unused:
  assumes "\<forall>og \<in> set ogs. og < length (om_Cs om) \<and> og < length (om_lambda om)"
  shows "fit_groups te om h fs mdts ogs st =
         fit_groups te om h fs mdts (filter (group_used te h fs mdts) ogs) st"
  using assms
proof (induction ogs arbitrary: st)
  case Nil
  then show ?case by simp
next
  case (Cons og ogs)
  show ?case
  proof (cases "group_used te h fs mdts og")
    case True
    with Cons show ?thesis by (simp split: sum.splits)
  next
    case False
    with Cons show ?thesis by (simp add: fit_group_unused)
  qed
qed

lemma fit_groups_final_row:
  assumes "fit_groups te om h fs mdts ogs st = Inr st'" and "og \<in> set ogs"
  shows "\<exists>st0 st1. fit_group te om h fs mdts og st0 = Inr st1
           \<and> (\<forall>l. optOut st' (og, l) = optOut st1 (og, l))"
  using assms
proof (induction ogs arbitrary: st)
  case Nil
  then show ?case by simp
next
  case (Cons a ogs)
  from Cons.prems(1) obtain st1 where
    s1: "fit_group te om h fs mdts a st = Inr st1" and
    s2: "fit_groups te om h fs mdts ogs st1 = Inr st'"
    unfolding fit_groups_Cons_Inr by blast
  show ?case
  proof (cases "og \<in> set ogs")
    case True
    from Cons.IH [OF s2 True] show ?thesis .
  next
    case False
    with Cons.prems(2) have a: "a = og" by simp
    have "\<forall>l. optOut st' (og, l) = optOut st1 (og, l)"
      using fit_groups_frame [OF s2] False by blast
    with s1 a show ?thesis by blast
  qed
qed

lemma fit_frame_cond:
  assumes "parametricFit te om h fs mdts st = Inr st'"
    and "\<not> (row < om_numberOfOpticsGroups om \<and> group_used te h fs mdts row
            \<and> (l = EMDL_IMAGE_BEAMTILT_X \<or> l = EMDL_IMAGE_BEAMTILT_Y
               \<or> (l = EMDL_IMAGE_ODD_ZERNIKE_COEFFS \<and> 3 \<le> te_aberr_n_max te)))"
  shows "optOut st' (row, l) = optOut st (row, l)"
proof (rule ccontr)
  assume ne: "optOut st' (row, l) \<noteq> optOut st (row, l)"
  from assms(1) have
    "fit_groups te om h fs mdts [0..<om_numberOfOpticsGroups om] st = Inr st'"
    by (simp add: parametricFit_def split: if_splits)
  from fit_groups_frame [OF this ne] assms(2) show False by simp
qed

lemma parametricFit_total:
  assumes "te_ready te"
    and "om_numberOfOpticsGroups om \<le> length (om_Cs om)"
    and "om_numberOfOpticsGroups om \<le> length (om_lambda om)"
  shows "\<exists>st'. parametricFit te om h fs mdts st = Inr st'"
proof -
  have "\<forall>g \<in> set [0..<om_numberOfOpticsGroups om].
          g < length (om_Cs om) \<and> g < length (om_lambda om)"
    using assms(2,3) by auto
  from fit_groups_total [OF this] assms(1) show ?thesis
    by (simp add: parametricFit_def)
qed

text \<open>
  C9. For an initialised estimator whose observation model holds the parameters of all
  its groups, \<^verbatim>\<open>parametricFit\<close> returns, and a cell of the output optics table differs from
  its value before the call only if its row is that of a used group and its column is
  the beam tilt X, the beam tilt Y or, when the requested degree is at least 3, the odd
  Zernike coefficients. Every other cell is unchanged.
\<close>

theorem parametricFit_frame:
  assumes "te_ready te"
    and "om_numberOfOpticsGroups om \<le> length (om_Cs om)"
    and "om_numberOfOpticsGroups om \<le> length (om_lambda om)"
  shows "\<exists>st'. parametricFit te om h fs mdts st = Inr st'
           \<and> (\<forall>row l.
                \<not> (row < om_numberOfOpticsGroups om \<and> group_used te h fs mdts row
                   \<and> (l = EMDL_IMAGE_BEAMTILT_X \<or> l = EMDL_IMAGE_BEAMTILT_Y
                      \<or> (l = EMDL_IMAGE_ODD_ZERNIKE_COEFFS \<and> 3 \<le> te_aberr_n_max te)))
                \<longrightarrow> optOut st' (row, l) = optOut st (row, l))"
proof -
  from parametricFit_total [OF assms] obtain st' where
    r: "parametricFit te om h fs mdts st = Inr st'" by blast
  then show ?thesis
    using fit_frame_cond [OF r] by blast
qed

theorem parametricFit_frame_witness:
  "\<exists>st'. parametricFit ex_te ex_om ex_h ex_fs [ex_mdt] ex_st = Inr st'
      \<and> optOut st' (0, EMDL_OTHER ''rlnVoltage'') = Some (DoubleCell 300)
      \<and> optOut st' (0, EMDL_IMAGE_ODD_ZERNIKE_COEFFS) = None
      \<and> optOut st' (1, EMDL_IMAGE_BEAMTILT_X) = None"
proof -
  have a: "te_ready ex_te" "om_numberOfOpticsGroups ex_om \<le> length (om_Cs ex_om)"
    "om_numberOfOpticsGroups ex_om \<le> length (om_lambda ex_om)"
    by (simp_all add: ex_te_def ex_om_def)
  from parametricFit_frame [OF a, of ex_h ex_fs "[ex_mdt]" ex_st] obtain st' where
    r: "parametricFit ex_te ex_om ex_h ex_fs [ex_mdt] ex_st = Inr st'" and
    f: "\<And>row l. \<not> (row < om_numberOfOpticsGroups ex_om \<and> group_used ex_te ex_h ex_fs [ex_mdt] row
                   \<and> (l = EMDL_IMAGE_BEAMTILT_X \<or> l = EMDL_IMAGE_BEAMTILT_Y
                      \<or> (l = EMDL_IMAGE_ODD_ZERNIKE_COEFFS \<and> 3 \<le> te_aberr_n_max ex_te)))
                \<Longrightarrow> optOut st' (row, l) = optOut ex_st (row, l)"
    by blast
  have "optOut st' (0, EMDL_OTHER ''rlnVoltage'') = optOut ex_st (0, EMDL_OTHER ''rlnVoltage'')"
    by (rule f) simp
  moreover have "optOut st' (0, EMDL_IMAGE_ODD_ZERNIKE_COEFFS)
                   = optOut ex_st (0, EMDL_IMAGE_ODD_ZERNIKE_COEFFS)"
    by (rule f) (simp add: ex_te_def)
  moreover have "optOut st' (1, EMDL_IMAGE_BEAMTILT_X) = optOut ex_st (1, EMDL_IMAGE_BEAMTILT_X)"
    by (rule f) (simp add: ex_om_def)
  ultimately show ?thesis
    using r by (auto simp: ex_st_def)
qed

lemma group_input_phase:
  "fi_phase (group_input te h fs mdts og) = getPhase h (fi_xyAccSum (group_input te h fs mdts og))"
  by (simp add: group_input_def Let_def split: prod.splits)

lemma group_input_xyNrm:
  "fi_xyNrm (group_input te h fs mdts og) =
     normalise_xy te (fi_xyAccSum (group_input te h fs mdts og))
       (fi_wAccSum (group_input te h fs mdts og))"
  by (simp add: group_input_def Let_def split: prod.splits)

lemma normalise_xy_pixel:
  "normalise_xy te xy w y x =
     (if y < te_s te \<and> x < te_sh te
      then (if 0 < w y x then Complex (Re (xy y x) / w y x) (Im (xy y x) / w y x) else Complex 0 0)
      else 0)"
  by (simp add: normalise_xy_def foldl_nrm_step in_pixels img_zero_def)

text \<open>
  C5. For an initialised estimator whose observation model holds the parameters of all
  its groups: a batch without the complete pair of a group adds nothing to that group's
  sums (they are the sums over the batches that have it); \<^verbatim>\<open>parametricFit\<close> returns
  without an error; it is the loop over the used groups only; and the body of the loop
  leaves the table and the log as they are for a group no batch contributed to.
\<close>

theorem missing_checkpoints_skipped:
  assumes "te_ready te"
    and "om_numberOfOpticsGroups om \<le> length (om_Cs om)"
    and "om_numberOfOpticsGroups om \<le> length (om_lambda om)"
  shows "group_input te h fs mdts og =
           group_input te h fs
             (filter (\<lambda>mdt. pair_exists fs (getOutputFilenameRoot h mdt (te_outPath te))
                              (show_int (int og + 1))) mdts) og
         \<and> (\<exists>st'. parametricFit te om h fs mdts st = Inr st')
         \<and> parametricFit te om h fs mdts st =
             fit_groups te om h fs mdts
               (filter (group_used te h fs mdts) [0..<om_numberOfOpticsGroups om]) st
         \<and> (og < om_numberOfOpticsGroups om \<and> \<not> group_used te h fs mdts og
              \<longrightarrow> fit_group te om h fs mdts og st = Inr st)"
proof -
  have b: "\<forall>g \<in> set [0..<om_numberOfOpticsGroups om].
             g < length (om_Cs om) \<and> g < length (om_lambda om)"
    using assms(2,3) by auto
  have "\<exists>st'. parametricFit te om h fs mdts st = Inr st'"
    using fit_groups_total [OF b] assms(1) by (simp add: parametricFit_def)
  moreover have "parametricFit te om h fs mdts st =
             fit_groups te om h fs mdts
               (filter (group_used te h fs mdts) [0..<om_numberOfOpticsGroups om]) st"
    using fit_groups_skip_unused [OF b] assms(1) by (simp add: parametricFit_def)
  moreover have "og < om_numberOfOpticsGroups om \<and> \<not> group_used te h fs mdts og
              \<longrightarrow> fit_group te om h fs mdts og st = Inr st"
    using assms(2,3) by (auto intro: fit_group_unused)
  ultimately show ?thesis
    using group_input_filter [of te h fs mdts og] by blast
qed

lemma ex_pair_exists:
  "pair_exists ex_fs (getOutputFilenameRoot ex_h ex_mdt (te_outPath ex_te)) ''1''"
  "\<not> pair_exists ex_fs (getOutputFilenameRoot ex_h ex_mdt2 (te_outPath ex_te)) ''1''"
  "\<not> pair_exists ex_fs (getOutputFilenameRoot ex_h ex_mdt (te_outPath ex_te)) ''2''"
  "\<not> pair_exists ex_fs (getOutputFilenameRoot ex_h ex_mdt2 (te_outPath ex_te)) ''2''"
  by (simp_all add: ex_h_def ex_mdt_def ex_mdt2_def ex_fs_def ex_te_def pair_exists_def
      exists_file_def xyAcc_base_def wAcc_name_def)

lemma ex_group_used:
  "group_used ex_te ex_h ex_fs [ex_mdt2, ex_mdt] 0"
  "\<not> group_used ex_te ex_h ex_fs [ex_mdt2, ex_mdt] 1"
  "group_used ex_te ex_h ex_fs [ex_mdt] 0"
  using ex_pair_exists by (simp_all add: group_used_def show_int_1 show_int_2)

theorem missing_checkpoints_skipped_witness:
  "group_input ex_te ex_h ex_fs [ex_mdt2, ex_mdt] 0 = group_input ex_te ex_h ex_fs [ex_mdt] 0
   \<and> (\<exists>st'. parametricFit ex_te ex_om2 ex_h ex_fs [ex_mdt2, ex_mdt] ex_st = Inr st')
   \<and> parametricFit ex_te ex_om2 ex_h ex_fs [ex_mdt2, ex_mdt] ex_st =
       fit_groups ex_te ex_om2 ex_h ex_fs [ex_mdt2, ex_mdt] [0] ex_st
   \<and> fit_group ex_te ex_om2 ex_h ex_fs [ex_mdt2, ex_mdt] 1 ex_st = Inr ex_st"
proof -
  have a: "te_ready ex_te" "om_numberOfOpticsGroups ex_om2 \<le> length (om_Cs ex_om2)"
    "om_numberOfOpticsGroups ex_om2 \<le> length (om_lambda ex_om2)"
    by (simp_all add: ex_te_def ex_om2_def)
  have f0: "filter (\<lambda>mdt. pair_exists ex_fs (getOutputFilenameRoot ex_h mdt (te_outPath ex_te))
              (show_int (int 0 + 1))) [ex_mdt2, ex_mdt] = [ex_mdt]"
    using ex_pair_exists by (simp add: show_int_1)
  have f1: "filter (group_used ex_te ex_h ex_fs [ex_mdt2, ex_mdt]) [0..<om_numberOfOpticsGroups ex_om2]
              = [0]"
    using ex_group_used by (simp add: ex_om2_def upt_rec)
  have n: "1 < om_numberOfOpticsGroups ex_om2" by (simp add: ex_om2_def)
  note t0 = missing_checkpoints_skipped [OF a, of ex_h ex_fs "[ex_mdt2, ex_mdt]" 0 ex_st]
  note t1 = missing_checkpoints_skipped [OF a, of ex_h ex_fs "[ex_mdt2, ex_mdt]" 1 ex_st]
  from t0 t1 show ?thesis
    unfolding f0 f1 using n ex_group_used(2) by blast
qed

lemma model_selection_cond:
  assumes "parametricFit te om h fs mdts st = Inr st'"
    and "og < om_numberOfOpticsGroups om"
    and "group_used te h fs mdts og"
  shows
    "(te_aberr_n_max te < 3 \<longrightarrow>
        (let fi = group_input te h fs mdts og;
             lin = fst (fitTiltShift h (fi_phase fi) (fi_wgh fi) (om_Cs om ! og) (om_lambda om ! og)
                          (te_angpix te));
             opt = fst (optimizeTilt h (fi_xyNrm fi) (fi_wgh fi) (om_Cs om ! og) (om_lambda om ! og)
                          (te_angpix te) False lin)
         in optOut st' (og, EMDL_IMAGE_BEAMTILT_X) = Some (DoubleCell (fst (snd (snd opt))))
            \<and> optOut st' (og, EMDL_IMAGE_BEAMTILT_Y) = Some (DoubleCell (snd (snd (snd opt))))
            \<and> optOut st' (og, EMDL_IMAGE_ODD_ZERNIKE_COEFFS)
                = optOut st (og, EMDL_IMAGE_ODD_ZERNIKE_COEFFS)))
     \<and> (3 \<le> te_aberr_n_max te \<longrightarrow>
        (let fi = group_input te h fs mdts og;
             lin = fst (fitOddZernike h (fi_xyNrm fi) (fi_wgh fi) (te_angpix te) (te_aberr_n_max te));
             opt = fst (optimiseOddZernike h (fi_xyNrm fi) (fi_wgh fi) (te_angpix te)
                          (te_aberr_n_max te) lin);
             res = extractTilt h opt (om_Cs om ! og) (om_lambda om ! og)
         in optOut st' (og, EMDL_IMAGE_BEAMTILT_X) = Some (DoubleCell (fst (snd res)))
            \<and> optOut st' (og, EMDL_IMAGE_BEAMTILT_Y) = Some (DoubleCell (snd (snd res)))
            \<and> optOut st' (og, EMDL_IMAGE_ODD_ZERNIKE_COEFFS) = Some (VectorCell (fst res))))"
proof -
  from assms(1) have
    fg: "fit_groups te om h fs mdts [0..<om_numberOfOpticsGroups om] st = Inr st'"
    by (simp add: parametricFit_def split: if_splits)
  from assms(2) have "og \<in> set [0..<om_numberOfOpticsGroups om]" by simp
  from fit_groups_final_row [OF fg this] obtain st0 st1 where
    s: "fit_group te om h fs mdts og st0 = Inr st1" and
    e: "\<And>l. optOut st' (og, l) = optOut st1 (og, l)"
    by blast
  note o = fit_group_optOut [OF s]
  have planar: "te_aberr_n_max te < 3 \<Longrightarrow>
      optOut st' (og, EMDL_IMAGE_BEAMTILT_X)
        = Some (DoubleCell (fst (planar_tilt te om h (group_input te h fs mdts og) og)))
      \<and> optOut st' (og, EMDL_IMAGE_BEAMTILT_Y)
        = Some (DoubleCell (snd (planar_tilt te om h (group_input te h fs mdts og) og)))"
    using assms(3) by (simp add: e o setValue_def)
  have keep: "te_aberr_n_max te < 3 \<Longrightarrow>
      optOut st' (og, EMDL_IMAGE_ODD_ZERNIKE_COEFFS) = optOut st (og, EMDL_IMAGE_ODD_ZERNIKE_COEFFS)"
    using fit_groups_frame [OF fg, of og EMDL_IMAGE_ODD_ZERNIKE_COEFFS] by auto
  have zern: "3 \<le> te_aberr_n_max te \<Longrightarrow>
      optOut st' (og, EMDL_IMAGE_BEAMTILT_X)
        = Some (DoubleCell (fst (snd (zernike_result te om h (group_input te h fs mdts og) og))))
      \<and> optOut st' (og, EMDL_IMAGE_BEAMTILT_Y)
        = Some (DoubleCell (snd (snd (zernike_result te om h (group_input te h fs mdts og) og))))
      \<and> optOut st' (og, EMDL_IMAGE_ODD_ZERNIKE_COEFFS)
        = Some (VectorCell (fst (zernike_result te om h (group_input te h fs mdts og) og)))"
    using assms(3) by (simp add: e o setValue_def)
  show ?thesis
    using planar keep zern
    by (simp add: Let_def planar_tilt_def zernike_result_def)
qed

lemma ex_zernike_acc:
  "fi_xyAccSum (group_input ex_te_zernike ex_h ex_fs [ex_mdt] 0) = (\<lambda>y x. Complex 6 8)"
  "fi_wAccSum (group_input ex_te_zernike ex_h ex_fs [ex_mdt] 0) = (\<lambda>y x. 2)"
  using ex_merge by (simp_all add: group_input_def show_int_1 Let_def ex_te_def ex_te_zernike_def)

lemma ex_zernike_used: "group_used ex_te_zernike ex_h ex_fs [ex_mdt] 0"
  using ex_pair_exists(1) by (simp add: group_used_def show_int_1 ex_te_zernike_def ex_te_def)

text \<open>
  C1. For an initialised estimator whose observation model holds the parameters of all
  its groups, \<^verbatim>\<open>parametricFit\<close> returns, and for a used group: when the requested degree is below 3,
  the tilt X and Y cells of its row hold the tilt returned by \<^verbatim>\<open>optimizeTilt\<close>, run on
  the normalised field from the result of \<^verbatim>\<open>fitTiltShift\<close>, and the coefficient cell is
  as before; when the degree is at least 3, \<^verbatim>\<open>optimiseOddZernike\<close> starts from the result
  of \<^verbatim>\<open>fitOddZernike\<close>, \<^verbatim>\<open>extractTilt\<close> derives the tilt from the optimised coefficients,
  and the tilt X, tilt Y and coefficient cells are written.
\<close>

theorem model_selection_and_outputs:
  assumes "te_ready te"
    and "om_numberOfOpticsGroups om \<le> length (om_Cs om)"
    and "om_numberOfOpticsGroups om \<le> length (om_lambda om)"
    and "og < om_numberOfOpticsGroups om"
    and "group_used te h fs mdts og"
  shows
    "\<exists>st'. parametricFit te om h fs mdts st = Inr st' \<and>
     (te_aberr_n_max te < 3 \<longrightarrow>
        (let fi = group_input te h fs mdts og;
             lin = fst (fitTiltShift h (fi_phase fi) (fi_wgh fi) (om_Cs om ! og) (om_lambda om ! og)
                          (te_angpix te));
             opt = fst (optimizeTilt h (fi_xyNrm fi) (fi_wgh fi) (om_Cs om ! og) (om_lambda om ! og)
                          (te_angpix te) False lin)
         in optOut st' (og, EMDL_IMAGE_BEAMTILT_X) = Some (DoubleCell (fst (snd (snd opt))))
            \<and> optOut st' (og, EMDL_IMAGE_BEAMTILT_Y) = Some (DoubleCell (snd (snd (snd opt))))
            \<and> optOut st' (og, EMDL_IMAGE_ODD_ZERNIKE_COEFFS)
                = optOut st (og, EMDL_IMAGE_ODD_ZERNIKE_COEFFS)))
     \<and> (3 \<le> te_aberr_n_max te \<longrightarrow>
        (let fi = group_input te h fs mdts og;
             lin = fst (fitOddZernike h (fi_xyNrm fi) (fi_wgh fi) (te_angpix te) (te_aberr_n_max te));
             opt = fst (optimiseOddZernike h (fi_xyNrm fi) (fi_wgh fi) (te_angpix te)
                          (te_aberr_n_max te) lin);
             res = extractTilt h opt (om_Cs om ! og) (om_lambda om ! og)
         in optOut st' (og, EMDL_IMAGE_BEAMTILT_X) = Some (DoubleCell (fst (snd res)))
            \<and> optOut st' (og, EMDL_IMAGE_BEAMTILT_Y) = Some (DoubleCell (snd (snd res)))
            \<and> optOut st' (og, EMDL_IMAGE_ODD_ZERNIKE_COEFFS) = Some (VectorCell (fst res))))"
proof -
  from parametricFit_total [OF assms(1,2,3)] obtain st' where
    r: "parametricFit te om h fs mdts st = Inr st'" by blast
  from r model_selection_cond [OF r assms(4,5)] show ?thesis by blast
qed

theorem model_selection_and_outputs_witness:
  "(\<exists>st'. parametricFit ex_te ex_om ex_h ex_fs [ex_mdt] ex_st = Inr st'
      \<and> optOut st' (0, EMDL_IMAGE_BEAMTILT_X) = Some (DoubleCell 9)
      \<and> optOut st' (0, EMDL_IMAGE_BEAMTILT_Y) = Some (DoubleCell 10)
      \<and> optOut st' (0, EMDL_IMAGE_ODD_ZERNIKE_COEFFS) = None)
   \<and> (\<exists>st'. parametricFit ex_te_zernike ex_om ex_h ex_fs [ex_mdt] ex_st = Inr st'
      \<and> optOut st' (0, EMDL_IMAGE_BEAMTILT_X) = Some (DoubleCell 4)
      \<and> optOut st' (0, EMDL_IMAGE_BEAMTILT_Y) = Some (DoubleCell 5)
      \<and> optOut st' (0, EMDL_IMAGE_ODD_ZERNIKE_COEFFS) = Some (VectorCell [4, 5]))"
proof -
  have n: "0 < om_numberOfOpticsGroups ex_om" by (simp add: ex_om_def)
  have a: "te_ready ex_te" "om_numberOfOpticsGroups ex_om \<le> length (om_Cs ex_om)"
    "om_numberOfOpticsGroups ex_om \<le> length (om_lambda ex_om)"
    by (simp_all add: ex_te_def ex_om_def)
  have b: "te_ready ex_te_zernike" by (simp add: ex_te_def ex_te_zernike_def)
  have p: "te_aberr_n_max ex_te < 3" "\<not> 3 \<le> te_aberr_n_max ex_te"
    by (simp_all add: ex_te_def)
  have z: "\<not> te_aberr_n_max ex_te_zernike < 3" "3 \<le> te_aberr_n_max ex_te_zernike"
    "te_aberr_n_max ex_te_zernike = 4" "te_s ex_te_zernike = 2" "te_sh ex_te_zernike = 2"
    by (simp_all add: ex_te_def ex_te_zernike_def)
  have "\<exists>st'. parametricFit ex_te ex_om ex_h ex_fs [ex_mdt] ex_st = Inr st'
      \<and> optOut st' (0, EMDL_IMAGE_BEAMTILT_X) = Some (DoubleCell 9)
      \<and> optOut st' (0, EMDL_IMAGE_BEAMTILT_Y) = Some (DoubleCell 10)
      \<and> optOut st' (0, EMDL_IMAGE_ODD_ZERNIKE_COEFFS) = None"
    using model_selection_and_outputs [OF a n ex_group_used(3), of ex_st]
    unfolding Let_def group_input_phase ex_group_input_acc
    by (simp add: p) (simp add: ex_h_def ex_st_def)
  moreover have "\<exists>st'. parametricFit ex_te_zernike ex_om ex_h ex_fs [ex_mdt] ex_st = Inr st'
      \<and> optOut st' (0, EMDL_IMAGE_BEAMTILT_X) = Some (DoubleCell 4)
      \<and> optOut st' (0, EMDL_IMAGE_BEAMTILT_Y) = Some (DoubleCell 5)
      \<and> optOut st' (0, EMDL_IMAGE_ODD_ZERNIKE_COEFFS) = Some (VectorCell [4, 5])"
    using model_selection_and_outputs [OF b a(2,3) n ex_zernike_used, of ex_st]
    unfolding Let_def group_input_xyNrm ex_zernike_acc
    by (simp add: z) (simp add: ex_h_def normalise_xy_pixel z)
  ultimately show ?thesis by blast
qed

subsection \<open>The accumulation of one batch\<close>

lemma bind_err_simps [simp]:
  "bind_err (Inr a) f = f a"
  "bind_err (Inl e) f = Inl e"
  by (simp_all add: bind_err_def)

lemma bind_err_Inr_iff:
  "bind_err m f = Inr b \<longleftrightarrow> (\<exists>a. m = Inr a \<and> f a = Inr b)"
  by (cases m) simp_all

lemma vec_set_Inr_iff:
  "vec_set v i a = Inr v' \<longleftrightarrow> (0 \<le> i \<and> i < int (length v) \<and> v' = v[nat i := a])"
  by (auto simp: vec_set_def)

lemma vec_get_Inr_iff:
  "vec_get v i = Inr a \<longleftrightarrow> (0 \<le> i \<and> i < int (length v) \<and> a = v ! nat i)"
  by (auto simp: vec_get_def)

lemma fill_groupToIndex_success:
  assumes "\<forall>i \<in> set is. 0 \<le> optGroups ! i \<and> optGroups ! i < int (length gti)"
  shows "\<exists>gti'. fill_groupToIndex optGroups is gti = Inr gti' \<and> length gti' = length gti"
  using assms
proof (induction "is" arbitrary: gti)
  case Nil
  then show ?case by simp
next
  case (Cons i "is")
  let ?g1 = "gti[nat (optGroups ! i) := int i]"
  have v: "vec_set gti (optGroups ! i) (int i) = Inr ?g1"
    using Cons.prems by (simp add: vec_set_def)
  have "\<forall>k \<in> set is. 0 \<le> optGroups ! k \<and> optGroups ! k < int (length ?g1)"
    using Cons.prems by simp
  from Cons.IH [OF this] show ?case
    by (simp add: v)
qed

lemma fill_groupToIndex_length:
  assumes "fill_groupToIndex optGroups is gti = Inr gti'"
  shows "length gti' = length gti"
  using assms
proof (induction "is" arbitrary: gti)
  case Nil
  then show ?case by simp
next
  case (Cons i "is")
  then show ?case
    by (auto simp: bind_err_Inr_iff vec_set_Inr_iff)
qed

lemma fill_groupToIndex_other:
  assumes "fill_groupToIndex optGroups is gti = Inr gti'"
    and "0 \<le> g" and "\<forall>k \<in> set is. optGroups ! k \<noteq> g"
  shows "gti' ! nat g = gti ! nat g"
  using assms
proof (induction "is" arbitrary: gti)
  case Nil
  then show ?case by simp
next
  case (Cons i "is")
  from Cons.prems(1) have
    r: "0 \<le> optGroups ! i" and
    f: "fill_groupToIndex optGroups is (gti[nat (optGroups ! i) := int i]) = Inr gti'"
    by (auto simp: bind_err_Inr_iff vec_set_Inr_iff)
  have ne: "nat (optGroups ! i) \<noteq> nat g"
    using r Cons.prems(2,3) by (auto simp: nat_eq_iff)
  have "gti' ! nat g = (gti[nat (optGroups ! i) := int i]) ! nat g"
    using Cons.IH [OF f Cons.prems(2)] Cons.prems(3) by simp
  then show ?case using ne by simp
qed

lemma fill_groupToIndex_index:
  assumes "fill_groupToIndex optGroups is gti = Inr gti'"
    and "distinct optGroups" and "\<forall>k \<in> set is. k < length optGroups" and "i \<in> set is"
  shows "gti' ! nat (optGroups ! i) = int i"
  using assms(1,3,4)
proof (induction "is" arbitrary: gti)
  case Nil
  then show ?case by simp
next
  case (Cons a "is")
  from Cons.prems(1) have
    r: "0 \<le> optGroups ! a" "optGroups ! a < int (length gti)" and
    f: "fill_groupToIndex optGroups is (gti[nat (optGroups ! a) := int a]) = Inr gti'"
    by (auto simp: bind_err_Inr_iff vec_set_Inr_iff)
  show ?case
  proof (cases "i \<in> set is")
    case True
    with Cons.IH [OF f] Cons.prems(2) show ?thesis by simp
  next
    case False
    with Cons.prems(3) have ia: "i = a" by simp
    have "\<forall>k \<in> set is. optGroups ! k \<noteq> optGroups ! a"
      using False ia Cons.prems(2) assms(2) by (auto simp: nth_eq_iff_index_eq)
    from fill_groupToIndex_other [OF f r(1) this]
    show ?thesis using r ia by simp
  qed
qed

lemma acc_index_bound:
  assumes "t < nt" and "ci < cc"
  shows "cc * t + ci < nt * (cc::nat)"
proof -
  have "cc * t + ci < cc * Suc t" using assms(2) by simp
  also have "cc * Suc t \<le> cc * nt" using assms(1) by (intro mult_le_mono2) simp
  finally show ?thesis by (simp add: mult.commute)
qed

lemma acc_index_inj:
  assumes "ci < cc" and "ci' < (cc::nat)"
  shows "(cc * t + ci = cc * t' + ci') = (t = t' \<and> ci = ci')"
proof
  assume e: "cc * t + ci = cc * t' + ci'"
  have "(cc * t + ci) div cc = t" "(cc * t + ci) mod cc = ci"
    using assms(1) by simp_all
  moreover have "(cc * t' + ci') div cc = t'" "(cc * t' + ci') mod cc = ci'"
    using assms(2) by simp_all
  ultimately show "t = t' \<and> ci = ci'" using e by metis
next
  assume "t = t' \<and> ci = ci'"
  then show "cc * t + ci = cc * t' + ci'" by simp
qed

lemma thread_sum_pixel:
  "thread_sum acc cc nt ci y x = (\<Sum>t = 0..<nt. (acc ! (cc * t + ci)) y x)"
proof -
  have "foldl (\<lambda>accSum threadnum. img_add accSum (acc ! (cc * threadnum + ci))) a [0..<n] y x
          = a y x + (\<Sum>t = 0..<n. (acc ! (cc * t + ci)) y x)" for a n
    by (induction n) (simp_all add: img_add_def add.assoc)
  then show ?thesis
    by (simp add: thread_sum_def img_zero_def)
qed

lemma column_sum_update:
  fixes A :: "'a::comm_monoid_add image list"
  assumes "t < nt" and "ci' < cc" and "ci < cc" and "length A = nt * cc"
  shows "(\<Sum>k = 0..<nt. (A[cc * t + ci' := img_add (A ! (cc * t + ci')) c] ! (cc * k + ci)) y x)
           = (\<Sum>k = 0..<nt. (A ! (cc * k + ci)) y x) + (if ci = ci' then c y x else 0)"
proof -
  have "(A[cc * t + ci' := img_add (A ! (cc * t + ci')) c] ! (cc * k + ci)) y x
          = (A ! (cc * k + ci)) y x + (if k = t then (if ci = ci' then c y x else 0) else 0)"
    if "k \<in> {0..<nt}" for k
  proof -
    have b: "cc * k + ci < length A"
      using that assms(3,4) acc_index_bound [of k nt ci cc] by simp
    show ?thesis
      using b acc_index_inj [OF assms(2,3), of t k]
      by (auto simp: nth_list_update img_add_def)
  qed
  then have "(\<Sum>k = 0..<nt. (A[cc * t + ci' := img_add (A ! (cc * t + ci')) c] ! (cc * k + ci)) y x)
      = (\<Sum>k = 0..<nt. (A ! (cc * k + ci)) y x + (if k = t then (if ci = ci' then c y x else 0) else 0))"
    by (intro sum.cong) simp_all
  also have "\<dots> = (\<Sum>k = 0..<nt. (A ! (cc * k + ci)) y x) + (if ci = ci' then c y x else 0)"
    using assms(1) by (simp add: sum.distrib)
  finally show ?thesis .
qed

lemma particle_step_eval:
  assumes "step_ok te cc gti mdt obs pred (p, t)"
    and "length (fst acc) = te_nr_omp_threads te * cc"
    and "length (snd acc) = te_nr_omp_threads te * cc"
  shows "particle_step te h cc gti mdt obs pred acc (p, t) =
     Inr ((fst acc)[cc * t + ci_of gti mdt p :=
             img_add (fst acc ! (cc * t + ci_of gti mdt p))
               (tiltContribXY h (pred ! p) (obs ! p) (mdt ! p) (te_angpix te))],
          (snd acc)[cc * t + ci_of gti mdt p :=
             img_add (snd acc ! (cc * t + ci_of gti mdt p))
               (tiltContribW h (pred ! p) (obs ! p) (mdt ! p) (te_angpix te))])"
proof -
  let ?ci = "gti ! nat (optics_group (mdt ! p))"
  have ok: "p < length obs" "p < length pred" "t < te_nr_omp_threads te"
    "0 \<le> optics_group (mdt ! p)" "optics_group (mdt ! p) < int (length gti)"
    "0 \<le> ?ci" "?ci < int cc"
    using assms(1) by (simp_all add: step_ok_def)
  have c: "nat ?ci < cc" using ok(6,7) by simp
  have b: "cc * t + nat ?ci < te_nr_omp_threads te * cc"
    by (rule acc_index_bound [OF ok(3) c])
  have n: "nat (int cc * int t + ?ci) = cc * t + nat ?ci"
    using ok(6) by (simp add: nat_add_distrib nat_mult_distrib)
  have i0: "0 \<le> int cc * int t + ?ci"
    using ok(6) by simp
  have "int cc * int t + ?ci = int (cc * t + nat ?ci)"
    using ok(6) by simp
  also have "\<dots> < int (te_nr_omp_threads te * cc)"
    using b by (simp only: of_nat_less_iff)
  finally have i1: "int cc * int t + ?ci < int (te_nr_omp_threads te * cc)" .
  have g0: "vec_get mdt (int p) = Inr (mdt ! p)"
    using assms(1) by (simp add: vec_get_def step_ok_def)
  have g1: "vec_get gti (optics_group (mdt ! p)) = Inr ?ci"
    using ok(4,5) by (simp add: vec_get_def)
  have g2: "vec_get pred (int p) = Inr (pred ! p)" "vec_get obs (int p) = Inr (obs ! p)"
    using ok(1,2) by (simp_all add: vec_get_def)
  have g3: "vec_get (fst acc) (int cc * int t + ?ci) = Inr (fst acc ! (cc * t + nat ?ci))"
    "vec_get (snd acc) (int cc * int t + ?ci) = Inr (snd acc ! (cc * t + nat ?ci))"
    using i0 i1 n assms(2,3) by (simp_all add: vec_get_def)
  have s: "vec_set (fst acc) (int cc * int t + ?ci) a = Inr ((fst acc)[cc * t + nat ?ci := a])"
    "vec_set (snd acc) (int cc * int t + ?ci) a' = Inr ((snd acc)[cc * t + nat ?ci := a'])" for a a'
    using i0 i1 n assms(2,3) by (simp_all add: vec_set_def)
  show ?thesis
    unfolding particle_step_def ci_of_def prod.case g0 bind_err_simps g1 g2 g3 Let_def s
    by (simp add: updateTiltShift_def)
qed

lemma particle_loop_sums:
  assumes "\<forall>pt \<in> set sched. step_ok te cc gti mdt obs pred pt"
    and "length (fst acc) = te_nr_omp_threads te * cc"
    and "length (snd acc) = te_nr_omp_threads te * cc"
  shows "\<exists>acc'. particle_loop te h cc gti mdt obs pred sched acc = Inr acc'
     \<and> length (fst acc') = te_nr_omp_threads te * cc
     \<and> length (snd acc') = te_nr_omp_threads te * cc
     \<and> (\<forall>ci < cc. \<forall>y x.
          (\<Sum>k = 0..<te_nr_omp_threads te. (fst acc' ! (cc * k + ci)) y x)
            = (\<Sum>k = 0..<te_nr_omp_threads te. (fst acc ! (cc * k + ci)) y x)
              + sum_list (map (\<lambda>p. tiltContribXY h (pred ! p) (obs ! p) (mdt ! p) (te_angpix te) y x)
                  (filter (\<lambda>p. ci_of gti mdt p = ci) (map fst sched)))
          \<and> (\<Sum>k = 0..<te_nr_omp_threads te. (snd acc' ! (cc * k + ci)) y x)
            = (\<Sum>k = 0..<te_nr_omp_threads te. (snd acc ! (cc * k + ci)) y x)
              + sum_list (map (\<lambda>p. tiltContribW h (pred ! p) (obs ! p) (mdt ! p) (te_angpix te) y x)
                  (filter (\<lambda>p. ci_of gti mdt p = ci) (map fst sched))))"
  using assms
proof (induction sched arbitrary: acc)
  case Nil
  then show ?case by simp
next
  case (Cons pt sched)
  obtain p t where pt: "pt = (p, t)" by (cases pt)
  let ?i = "cc * t + ci_of gti mdt p"
  let ?cxy = "tiltContribXY h (pred ! p) (obs ! p) (mdt ! p) (te_angpix te)"
  let ?cw = "tiltContribW h (pred ! p) (obs ! p) (mdt ! p) (te_angpix te)"
  let ?a1 = "((fst acc)[?i := img_add (fst acc ! ?i) ?cxy], (snd acc)[?i := img_add (snd acc ! ?i) ?cw])"
  have ok: "step_ok te cc gti mdt obs pred (p, t)"
    using Cons.prems(1) pt by simp
  have st: "particle_step te h cc gti mdt obs pred acc pt = Inr ?a1"
    unfolding pt by (rule particle_step_eval [OF ok Cons.prems(2,3)])
  have t: "t < te_nr_omp_threads te" and c: "ci_of gti mdt p < cc"
    using ok by (auto simp: step_ok_def ci_of_def)
  have l: "length (fst ?a1) = te_nr_omp_threads te * cc" "length (snd ?a1) = te_nr_omp_threads te * cc"
    using Cons.prems(2,3) by simp_all
  have r: "\<forall>pt \<in> set sched. step_ok te cc gti mdt obs pred pt"
    using Cons.prems(1) by simp
  from Cons.IH [OF r l] obtain acc' where
    lp: "particle_loop te h cc gti mdt obs pred sched ?a1 = Inr acc'" and
    ln: "length (fst acc') = te_nr_omp_threads te * cc" "length (snd acc') = te_nr_omp_threads te * cc" and
    sm: "\<And>ci y x. ci < cc \<Longrightarrow>
          (\<Sum>k = 0..<te_nr_omp_threads te. (fst acc' ! (cc * k + ci)) y x)
            = (\<Sum>k = 0..<te_nr_omp_threads te. (fst ?a1 ! (cc * k + ci)) y x)
              + sum_list (map (\<lambda>p. tiltContribXY h (pred ! p) (obs ! p) (mdt ! p) (te_angpix te) y x)
                  (filter (\<lambda>p. ci_of gti mdt p = ci) (map fst sched)))
          \<and> (\<Sum>k = 0..<te_nr_omp_threads te. (snd acc' ! (cc * k + ci)) y x)
            = (\<Sum>k = 0..<te_nr_omp_threads te. (snd ?a1 ! (cc * k + ci)) y x)
              + sum_list (map (\<lambda>p. tiltContribW h (pred ! p) (obs ! p) (mdt ! p) (te_angpix te) y x)
                  (filter (\<lambda>p. ci_of gti mdt p = ci) (map fst sched)))"
    by blast
  have res: "particle_loop te h cc gti mdt obs pred (pt # sched) acc = Inr acc'"
    by (simp add: st lp)
  have "(\<Sum>k = 0..<te_nr_omp_threads te. (fst acc' ! (cc * k + ci)) y x)
            = (\<Sum>k = 0..<te_nr_omp_threads te. (fst acc ! (cc * k + ci)) y x)
              + sum_list (map (\<lambda>p. tiltContribXY h (pred ! p) (obs ! p) (mdt ! p) (te_angpix te) y x)
                  (filter (\<lambda>p. ci_of gti mdt p = ci) (map fst (pt # sched))))
          \<and> (\<Sum>k = 0..<te_nr_omp_threads te. (snd acc' ! (cc * k + ci)) y x)
            = (\<Sum>k = 0..<te_nr_omp_threads te. (snd acc ! (cc * k + ci)) y x)
              + sum_list (map (\<lambda>p. tiltContribW h (pred ! p) (obs ! p) (mdt ! p) (te_angpix te) y x)
                  (filter (\<lambda>p. ci_of gti mdt p = ci) (map fst (pt # sched))))"
    if ci: "ci < cc" for ci y x
  proof -
    have u1: "(\<Sum>k = 0..<te_nr_omp_threads te. (fst ?a1 ! (cc * k + ci)) y x)
        = (\<Sum>k = 0..<te_nr_omp_threads te. (fst acc ! (cc * k + ci)) y x)
          + (if ci = ci_of gti mdt p then ?cxy y x else 0)"
      using column_sum_update [OF t c ci Cons.prems(2)] by simp
    have u2: "(\<Sum>k = 0..<te_nr_omp_threads te. (snd ?a1 ! (cc * k + ci)) y x)
        = (\<Sum>k = 0..<te_nr_omp_threads te. (snd acc ! (cc * k + ci)) y x)
          + (if ci = ci_of gti mdt p then ?cw y x else 0)"
      using column_sum_update [OF t c ci Cons.prems(3)] by simp
    show ?thesis
      using sm [OF ci, of y x] unfolding u1 u2
      by (auto simp: pt add.assoc)
  qed
  with res ln show ?case by blast
qed

lemma sum_list_filter_perm:
  fixes f :: "nat \<Rightarrow> 'a::comm_monoid_add"
  assumes "distinct xs" and "set xs = {0..<n}" and "\<forall>p < n. P p = Q p"
  shows "sum_list (map f (filter P xs)) = sum_list (map f (filter Q [0..<n]))"
proof -
  have "sum_list (map f (filter P xs)) = sum f (set (filter P xs))"
    using assms(1) by (intro sum_list_distinct_conv_sum_set) simp
  also have "set (filter P xs) = set (filter Q [0..<n])"
    using assms(2,3) by auto
  also have "sum f (set (filter Q [0..<n])) = sum_list (map f (filter Q [0..<n]))"
    by (intro sum_list_distinct_conv_sum_set [symmetric]) simp
  finally show ?thesis .
qed

lemma processMicrograph_result:
  assumes ready: "te_ready te"
    and groups: "\<forall>p \<in> set mdt. 0 \<le> optics_group p
                   \<and> optics_group p \<le> int (om_numberOfOpticsGroups om)"
    and sched: "valid_schedule te (length mdt) sched"
    and obs: "length mdt \<le> length obs" and pred: "length mdt \<le> length pred"
  shows "processMicrograph te om h mdt obs pred sched
           = Inr (expected_writes h (te_angpix te) (te_outPath te) mdt obs pred)"
proof -
  let ?og = "getOptGroupsPresent mdt"
  let ?cc = "length ?og"
  let ?nt = "te_nr_omp_threads te"
  let ?g0 = "replicate (om_numberOfOpticsGroups om + 1) (- 1 :: int)"
  have d: "distinct ?og" and s: "set ?og = optics_group ` set mdt"
    by (simp_all add: getOptGroupsPresent_def)
  have r: "\<forall>i \<in> set [0..<?cc]. 0 \<le> ?og ! i \<and> ?og ! i < int (length ?g0)"
  proof
    fix i assume "i \<in> set [0..<?cc]"
    then have "?og ! i \<in> set ?og" by simp
    then obtain p where "p \<in> set mdt" "?og ! i = optics_group p" using s by auto
    with groups show "0 \<le> ?og ! i \<and> ?og ! i < int (length ?g0)" by auto
  qed
  from fill_groupToIndex_success [OF r] obtain gti where
    f: "fill_groupToIndex ?og [0..<?cc] ?g0 = Inr gti" and
    lg: "length gti = om_numberOfOpticsGroups om + 1"
    by auto
  have ix: "gti ! nat (?og ! i) = int i" if "i < ?cc" for i
    using fill_groupToIndex_index [OF f d, of i] that by simp
  have ci: "\<exists>i < ?cc. ?og ! i = optics_group (mdt ! p) \<and> ci_of gti mdt p = i"
    if "p < length mdt" for p
  proof -
    have "optics_group (mdt ! p) \<in> set ?og" using that s by simp
    then obtain i where "i < ?cc" "?og ! i = optics_group (mdt ! p)"
      by (auto simp: in_set_conv_nth)
    then show ?thesis using ix [of i] by (auto simp: ci_of_def)
  qed
  have ok: "\<forall>pt \<in> set sched. step_ok te ?cc gti mdt obs pred pt"
  proof
    fix pt assume m: "pt \<in> set sched"
    then have "fst pt \<in> set (map fst sched)" by simp
    then have p: "fst pt < length mdt" using sched by (simp add: valid_schedule_def)
    have t: "snd pt < ?nt" using sched m by (simp add: valid_schedule_def list_all_iff)
    from ci [OF p] obtain i where i: "i < ?cc" "?og ! i = optics_group (mdt ! fst pt)" by blast
    have "gti ! nat (optics_group (mdt ! fst pt)) = int i" using ix [OF i(1)] i(2) by simp
    moreover have "0 \<le> optics_group (mdt ! fst pt)"
      "optics_group (mdt ! fst pt) < int (length gti)"
      using groups p lg by (auto simp: all_set_conv_all_nth)
    ultimately show "step_ok te ?cc gti mdt obs pred pt"
      using p t i(1) obs pred by (simp add: step_ok_def)
  qed
  let ?a0 = "(replicate (?nt * ?cc) (img_zero :: complex image),
              replicate (?nt * ?cc) (img_zero :: real image))"
  have la: "length (fst ?a0) = ?nt * ?cc" "length (snd ?a0) = ?nt * ?cc" by simp_all
  from particle_loop_sums [OF ok la, of h] obtain acc where
    lp: "particle_loop te h ?cc gti mdt obs pred sched ?a0 = Inr acc" and
    sm: "\<And>ci y x. ci < ?cc \<Longrightarrow>
          (\<Sum>k = 0..<?nt. (fst acc ! (?cc * k + ci)) y x)
            = (\<Sum>k = 0..<?nt. (fst ?a0 ! (?cc * k + ci)) y x)
              + sum_list (map (\<lambda>p. tiltContribXY h (pred ! p) (obs ! p) (mdt ! p) (te_angpix te) y x)
                  (filter (\<lambda>p. ci_of gti mdt p = ci) (map fst sched)))
          \<and> (\<Sum>k = 0..<?nt. (snd acc ! (?cc * k + ci)) y x)
            = (\<Sum>k = 0..<?nt. (snd ?a0 ! (?cc * k + ci)) y x)
              + sum_list (map (\<lambda>p. tiltContribW h (pred ! p) (obs ! p) (mdt ! p) (te_angpix te) y x)
                  (filter (\<lambda>p. ci_of gti mdt p = ci) (map fst sched)))"
    by blast
  have z: "(\<Sum>k = 0..<?nt. (replicate (?nt * ?cc) (img_zero :: 'a::comm_monoid_add image)
              ! (?cc * k + ci)) y x) = 0" if "ci < ?cc" for ci y x
  proof (rule sum.neutral, rule ballI)
    fix k assume "k \<in> {0..<?nt}"
    then have "?cc * k + ci < ?nt * ?cc"
      using acc_index_bound [of k ?nt ci ?cc] that by simp
    then show "(replicate (?nt * ?cc) (img_zero :: 'a image) ! (?cc * k + ci)) y x = 0"
      by (simp add: img_zero_def)
  qed
  have pq: "\<forall>p < length mdt. (ci_of gti mdt p = c) = (optics_group (mdt ! p) = ?og ! c)"
    if c: "c < ?cc" for c
  proof (intro allI impI)
    fix p assume "p < length mdt"
    from ci [OF this] obtain i where i: "i < ?cc" "?og ! i = optics_group (mdt ! p)"
      "ci_of gti mdt p = i" by blast
    show "(ci_of gti mdt p = c) = (optics_group (mdt ! p) = ?og ! c)"
      using i c d by (auto simp: nth_eq_iff_index_eq)
  qed
  have dm: "distinct (map fst sched)" "set (map fst sched) = {0..<length mdt}"
    using sched by (simp_all add: valid_schedule_def)
  have xy: "thread_sum (fst acc) ?cc ?nt c = group_sum_xy h (te_angpix te) mdt obs pred (?og ! c)"
    if c: "c < ?cc" for c
  proof (intro ext)
    fix y x
    show "thread_sum (fst acc) ?cc ?nt c y x
            = group_sum_xy h (te_angpix te) mdt obs pred (?og ! c) y x"
      using sm [OF c, of y x] z [OF c, of y x]
        sum_list_filter_perm [OF dm pq [OF c],
          of "\<lambda>p. tiltContribXY h (pred ! p) (obs ! p) (mdt ! p) (te_angpix te) y x"]
      by (simp add: thread_sum_pixel group_sum_xy_def)
  qed
  have w: "thread_sum (snd acc) ?cc ?nt c = group_sum_w h (te_angpix te) mdt obs pred (?og ! c)"
    if c: "c < ?cc" for c
  proof (intro ext)
    fix y x
    show "thread_sum (snd acc) ?cc ?nt c y x
            = group_sum_w h (te_angpix te) mdt obs pred (?og ! c) y x"
      using sm [OF c, of y x] z [OF c, of y x]
        sum_list_filter_perm [OF dm pq [OF c],
          of "\<lambda>p. tiltContribW h (pred ! p) (obs ! p) (mdt ! p) (te_angpix te) y x"]
      by (simp add: thread_sum_pixel group_sum_w_def)
  qed
  let ?F = "\<lambda>g. ComplexIO_write (group_sum_xy h (te_angpix te) mdt obs pred g)
          (getOutputFilenameRoot h mdt (te_outPath te) @ ''_xyAcc_optics-class_'' @ show_int g) ''.mrc''
        @ [(getOutputFilenameRoot h mdt (te_outPath te) @ ''_wAcc_optics-class_'' @ show_int g @ ''.mrc'',
            group_sum_w h (te_angpix te) mdt obs pred g)]"
  have gw: "map (group_writes te h mdt ?og acc) [0..<?cc] = map (\<lambda>c. ?F (?og ! c)) [0..<?cc]"
    by (rule map_cong) (simp_all add: group_writes_def Let_def xy w)
  also have "\<dots> = map ?F (map ((!) ?og) [0..<?cc])"
    by (simp add: comp_def)
  also have "\<dots> = map ?F ?og"
    by (simp only: map_nth)
  finally have fin: "concat (map (group_writes te h mdt ?og acc) [0..<?cc])
                  = expected_writes h (te_angpix te) (te_outPath te) mdt obs pred"
    by (simp add: expected_writes_def)
  show ?thesis
    unfolding processMicrograph_def Let_def f bind_err_simps lp fin
    using ready by simp
qed

subsection \<open>Checkpoint files\<close>

lemma isFinished_loop_iff:
  "isFinished_loop fs outRoot ogp = (\<forall>g \<in> set ogp. pair_exists fs outRoot (show_int g))"
  by (induction ogp) (auto simp: pair_exists_def xyAcc_base_def wAcc_name_def)

lemma dom_apply_writes: "dom (apply_writes fs ws) = dom fs \<union> fst ` set ws"
  unfolding apply_writes_def
  by (induction ws arbitrary: fs) (auto simp: write_file_def)

lemma group_writes_names:
  "map fst (group_writes te h mdt optGroups acc ci) =
     pair_names (getOutputFilenameRoot h mdt (te_outPath te)) (optGroups ! ci)"
  by (simp add: group_writes_def Let_def ComplexIO_write_def pair_names_def xyAcc_base_def
      wAcc_name_def)

lemma processMicrograph_Inr:
  assumes "processMicrograph te om h mdt obs pred sched = Inr ws"
  shows "te_ready te \<and> (\<exists>acc. ws = concat (map (group_writes te h mdt (getOptGroupsPresent mdt) acc)
                        [0..<length (getOptGroupsPresent mdt)]))"
  using assms
  by (auto simp: processMicrograph_def Let_def bind_err_Inr_iff split: if_splits)

lemma processMicrograph_names:
  assumes "processMicrograph te om h mdt obs pred sched = Inr ws"
  shows "map fst ws =
     concat (map (pair_names (getOutputFilenameRoot h mdt (te_outPath te))) (getOptGroupsPresent mdt))"
proof -
  let ?og = "getOptGroupsPresent mdt"
  from processMicrograph_Inr [OF assms] obtain acc where
    w: "ws = concat (map (group_writes te h mdt ?og acc) [0..<length ?og])" by blast
  have "map fst ws = concat (map (\<lambda>ci. pair_names (getOutputFilenameRoot h mdt (te_outPath te))
                                    (?og ! ci)) [0..<length ?og])"
    by (simp add: w map_concat comp_def group_writes_names)
  also have "\<dots> = concat (map (pair_names (getOutputFilenameRoot h mdt (te_outPath te)))
                      (map ((!) ?og) [0..<length ?og]))"
    by (simp add: comp_def)
  also have "\<dots> = concat (map (pair_names (getOutputFilenameRoot h mdt (te_outPath te))) ?og)"
    by (simp only: map_nth)
  finally show ?thesis .
qed

lemma pair_exists_names:
  "pair_exists fs outRoot (show_int g) = (set (pair_names outRoot g) \<subseteq> dom fs)"
  by (auto simp: pair_exists_def pair_names_def exists_file_def)

text \<open>
  C4. For an initialised estimator, \<^verbatim>\<open>isFinished(mdt)\<close> returns true exactly when, for the
  optics group of every particle of \<open>mdt\<close>, the real component, the imaginary component
  and the weight image exist under the batch's output root; and it returns true on the
  file system left by a run of \<^verbatim>\<open>processMicrograph\<close> on that batch.
\<close>

theorem isFinished_iff_pairs:
  assumes "te_ready te"
  shows "isFinished te h fs mdt =
           Inr (\<forall>p \<in> set mdt. pair_exists fs (getOutputFilenameRoot h mdt (te_outPath te))
                                 (show_int (optics_group p)))
         \<and> (processMicrograph te om h mdt obs pred sched = Inr ws
              \<longrightarrow> isFinished te h (apply_writes fs ws) mdt = Inr True)"
proof -
  have i: "isFinished te h fs' mdt =
           Inr (\<forall>p \<in> set mdt. pair_exists fs' (getOutputFilenameRoot h mdt (te_outPath te))
                                 (show_int (optics_group p)))" for fs'
    using assms by (simp add: isFinished_def isFinished_loop_iff getOptGroupsPresent_def)
  have "isFinished te h (apply_writes fs ws) mdt = Inr True"
    if r: "processMicrograph te om h mdt obs pred sched = Inr ws"
  proof -
    have "pair_exists (apply_writes fs ws) (getOutputFilenameRoot h mdt (te_outPath te))
            (show_int (optics_group p))" if "p \<in> set mdt" for p
    proof -
      have "optics_group p \<in> set (getOptGroupsPresent mdt)"
        using that by (simp add: getOptGroupsPresent_def)
      then have "set (pair_names (getOutputFilenameRoot h mdt (te_outPath te)) (optics_group p))
                   \<subseteq> set (map fst ws)"
        unfolding processMicrograph_names [OF r] by auto
      then show ?thesis
        by (auto simp: pair_exists_names dom_apply_writes)
    qed
    then show ?thesis by (simp add: i)
  qed
  with i show ?thesis by simp
qed

lemma ex_process:
  "processMicrograph ex_te ex_om ex_h ex_mdt [ex_img] [ex_img] [(0, 1)]
     = Inr (expected_writes ex_h 1 ''o/'' ex_mdt [ex_img] [ex_img])"
proof -
  have "processMicrograph ex_te ex_om ex_h ex_mdt [ex_img] [ex_img] [(0, 1)]
     = Inr (expected_writes ex_h (te_angpix ex_te) (te_outPath ex_te) ex_mdt [ex_img] [ex_img])"
    by (rule processMicrograph_result)
      (auto simp: ex_te_def ex_mdt_def ex_om_def valid_schedule_def)
  then show ?thesis by (simp add: ex_te_def)
qed

lemma ex_expected_writes:
  "expected_writes ex_h 1 ''o/'' ex_mdt [ex_img] [ex_img] =
     [(''o/m_xyAcc_optics-class_1_real.mrc'', \<lambda>y x. 5),
      (''o/m_xyAcc_optics-class_1_imag.mrc'', \<lambda>y x. 0),
      (''o/m_wAcc_optics-class_1.mrc'', \<lambda>y x. 5)]"
  by (simp add: expected_writes_def getOptGroupsPresent_def ex_mdt_def ComplexIO_write_def
      show_int_1 group_sum_xy_def group_sum_w_def ex_h_def ex_img_def cmod_def
      power2_eq_square)

theorem isFinished_iff_pairs_witness:
  "isFinished ex_te ex_h Map.empty ex_mdt = Inr False
   \<and> isFinished ex_te ex_h
        (apply_writes Map.empty (expected_writes ex_h 1 ''o/'' ex_mdt [ex_img] [ex_img])) ex_mdt
       = Inr True"
proof -
  have r: "te_ready ex_te" by (simp add: ex_te_def)
  note t = isFinished_iff_pairs [OF r, of ex_h _ ex_mdt ex_om "[ex_img]" "[ex_img]" "[(0, 1)]"
      "expected_writes ex_h 1 ''o/'' ex_mdt [ex_img] [ex_img]"]
  have "isFinished ex_te ex_h Map.empty ex_mdt = Inr False"
    using t [of Map.empty]
    by (simp add: ex_mdt_def pair_exists_def exists_file_def)
  moreover have "isFinished ex_te ex_h
        (apply_writes Map.empty (expected_writes ex_h 1 ''o/'' ex_mdt [ex_img] [ex_img])) ex_mdt
       = Inr True"
    using t [of Map.empty] ex_process by blast
  ultimately show ?thesis by simp
qed

text \<open>
  C6, as stated, fails. A particle of group 0, which is not among the defined groups
  1..N, is not reported: the batch is accumulated and a pair is written for group 0.
  A particle of group 5, with one group defined, is not reported either: the write
  \<^verbatim>\<open>groupToIndex[5] = 0\<close> is outside the vector.
\<close>

theorem undefined_group_not_detected:
  "findUndefinedOptGroups ex_om ex_mdt0 = [0]
   \<and> \<not> isl (processMicrograph ex_te ex_om ex_h ex_mdt0 [ex_img] [ex_img] [(0, 0)])
   \<and> map fst (projr (processMicrograph ex_te ex_om ex_h ex_mdt0 [ex_img] [ex_img] [(0, 0)]))
       = [''o/m_xyAcc_optics-class_0_real.mrc'', ''o/m_xyAcc_optics-class_0_imag.mrc'',
          ''o/m_wAcc_optics-class_0.mrc'']
   \<and> findUndefinedOptGroups ex_om ex_mdt5 = [5]
   \<and> processMicrograph ex_te ex_om ex_h ex_mdt5 [ex_img] [ex_img] [(0, 0)] = Inl OutOfBounds"
proof -
  have "processMicrograph ex_te ex_om ex_h ex_mdt0 [ex_img] [ex_img] [(0, 0)]
     = Inr (expected_writes ex_h (te_angpix ex_te) (te_outPath ex_te) ex_mdt0 [ex_img] [ex_img])"
    by (rule processMicrograph_result)
      (auto simp: ex_te_def ex_mdt0_def ex_om_def valid_schedule_def)
  moreover have "map fst (expected_writes ex_h (te_angpix ex_te) (te_outPath ex_te) ex_mdt0
                   [ex_img] [ex_img])
       = [''o/m_xyAcc_optics-class_0_real.mrc'', ''o/m_xyAcc_optics-class_0_imag.mrc'',
          ''o/m_wAcc_optics-class_0.mrc'']"
    by (simp add: expected_writes_def getOptGroupsPresent_def ex_mdt0_def ComplexIO_write_def
        show_int_0 ex_h_def ex_te_def)
  moreover have "findUndefinedOptGroups ex_om ex_mdt0 = [0]"
    "findUndefinedOptGroups ex_om ex_mdt5 = [5]"
    by (simp_all add: findUndefinedOptGroups_def getOptGroupsPresent_def ex_mdt0_def ex_mdt5_def
        ex_om_def)
  moreover have "processMicrograph ex_te ex_om ex_h ex_mdt5 [ex_img] [ex_img] [(0, 0)]
                   = Inl OutOfBounds"
    by (simp add: processMicrograph_def getOptGroupsPresent_def ex_mdt5_def ex_te_def ex_om_def
        vec_set_def)
  ultimately show ?thesis by simp
qed

text \<open>
  C6, amended. \<^verbatim>\<open>processMicrograph\<close> checks one thing before it accumulates, that the
  estimator is initialised; it does not look for undefined optics groups. When the
  particle table has none (\<^verbatim>\<open>findUndefinedOptGroups\<close> returns the empty vector), every
  lookup of the batch is in range and the batch is accumulated and written without
  error.
\<close>

theorem defined_groups_processed:
  "(\<not> te_ready te \<longrightarrow> processMicrograph te om h mdt obs pred sched = Inl NotInitialized)
   \<and> (te_ready te \<and> findUndefinedOptGroups om mdt = []
        \<and> valid_schedule te (length mdt) sched
        \<and> length mdt \<le> length obs \<and> length mdt \<le> length pred
      \<longrightarrow> processMicrograph te om h mdt obs pred sched
            = Inr (expected_writes h (te_angpix te) (te_outPath te) mdt obs pred))"
proof (intro conjI impI)
  assume "\<not> te_ready te"
  then show "processMicrograph te om h mdt obs pred sched = Inl NotInitialized"
    by (simp add: processMicrograph_def)
next
  assume a: "te_ready te \<and> findUndefinedOptGroups om mdt = []
        \<and> valid_schedule te (length mdt) sched
        \<and> length mdt \<le> length obs \<and> length mdt \<le> length pred"
  have "\<forall>p \<in> set mdt. 0 \<le> optics_group p \<and> optics_group p \<le> int (om_numberOfOpticsGroups om)"
  proof
    fix p assume "p \<in> set mdt"
    then have "optics_group p \<in> set (getOptGroupsPresent mdt)"
      by (simp add: getOptGroupsPresent_def)
    moreover have "\<forall>g \<in> set (getOptGroupsPresent mdt).
                     1 \<le> g \<and> g \<le> int (om_numberOfOpticsGroups om)"
      using a by (simp add: findUndefinedOptGroups_def filter_empty_conv)
    ultimately show "0 \<le> optics_group p \<and> optics_group p \<le> int (om_numberOfOpticsGroups om)"
      by force
  qed
  with a show "processMicrograph te om h mdt obs pred sched
            = Inr (expected_writes h (te_angpix te) (te_outPath te) mdt obs pred)"
    by (intro processMicrograph_result) simp_all
qed

theorem defined_groups_processed_witness:
  "processMicrograph (ex_te\<lparr>te_ready := False\<rparr>) ex_om ex_h ex_mdt [ex_img] [ex_img] [(0, 1)]
     = Inl NotInitialized
   \<and> findUndefinedOptGroups ex_om2 ex_mdt2 = []
   \<and> processMicrograph ex_te ex_om2 ex_h ex_mdt2 [ex_img, ex_img] [ex_img, ex_img] [(1, 0), (0, 1)]
     = Inr (expected_writes ex_h 1 ''o/'' ex_mdt2 [ex_img, ex_img] [ex_img, ex_img])"
proof -
  have u: "findUndefinedOptGroups ex_om2 ex_mdt2 = []"
    by (simp add: findUndefinedOptGroups_def getOptGroupsPresent_def ex_mdt2_def ex_om2_def)
  have a: "te_ready ex_te \<and> findUndefinedOptGroups ex_om2 ex_mdt2 = []
        \<and> valid_schedule ex_te (length ex_mdt2) [(1, 0), (0, 1)]
        \<and> length ex_mdt2 \<le> length [ex_img, ex_img] \<and> length ex_mdt2 \<le> length [ex_img, ex_img]"
    using u by (auto simp: ex_te_def ex_mdt2_def valid_schedule_def)
  have n: "\<not> te_ready (ex_te\<lparr>te_ready := False\<rparr>)" by simp
  have e: "te_angpix ex_te = 1" "te_outPath ex_te = ''o/''" by (simp_all add: ex_te_def)
  from defined_groups_processed [of "ex_te\<lparr>te_ready := False\<rparr>" ex_om ex_h ex_mdt "[ex_img]"
      "[ex_img]" "[(0, 1)]"] n
    defined_groups_processed [of ex_te ex_om2 ex_h ex_mdt2 "[ex_img, ex_img]"
      "[ex_img, ex_img]" "[(1, 0), (0, 1)]"] a u
  show ?thesis unfolding e by blast
qed

subsection \<open>Order and worker count\<close>

lemma merge_batches_sum:
  "merge_batches h outPath fs cns mdts (xy, w, u) =
     (\<lambda>y x. xy y x + sum_list (map (\<lambda>mdt.
                ComplexIO_read fs (xyAcc_base (getOutputFilenameRoot h mdt outPath) cns) ''.mrc'' y x)
                (filter (\<lambda>mdt. pair_exists fs (getOutputFilenameRoot h mdt outPath) cns) mdts)),
      \<lambda>y x. w y x + sum_list (map (\<lambda>mdt.
                read_image fs (wAcc_name (getOutputFilenameRoot h mdt outPath) cns) y x)
                (filter (\<lambda>mdt. pair_exists fs (getOutputFilenameRoot h mdt outPath) cns) mdts)),
      u \<or> list_ex (\<lambda>mdt. pair_exists fs (getOutputFilenameRoot h mdt outPath) cns) mdts)"
proof (induction mdts arbitrary: xy w u)
  case Nil
  show ?case by simp
next
  case (Cons mdt mdts)
  show ?case
    by (simp add: Cons.IH Let_def img_add_def add.assoc)
qed

lemma sum_list_filter_mset:
  fixes f :: "'b \<Rightarrow> 'a::comm_monoid_add"
  assumes "mset xs = mset ys"
  shows "sum_list (map f (filter P xs)) = sum_list (map f (filter P ys))"
proof -
  have "mset (map f (filter P xs)) = mset (map f (filter P ys))"
    using assms by (metis mset_filter mset_map)
  then show ?thesis
    by (metis sum_mset_sum_list)
qed

lemma merge_batches_perm:
  assumes "mset mdts' = mset mdts"
  shows "merge_batches h outPath fs cns mdts' acc = merge_batches h outPath fs cns mdts acc"
proof -
  obtain xy w u where a: "acc = (xy, w, u)" by (cases acc)
  have "set mdts' = set mdts" using assms by (rule mset_eq_setD)
  then show ?thesis
    unfolding a merge_batches_sum
    by (simp add: sum_list_filter_mset [OF assms] list_ex_iff)
qed

lemma group_input_perm:
  assumes "mset mdts' = mset mdts"
  shows "group_input te h fs mdts' og = group_input te h fs mdts og"
  by (simp add: group_input_def merge_batches_perm [OF assms])

lemma group_input_sums:
  "fi_xyAccSum (group_input te h fs mdts og) =
     (\<lambda>y x. sum_list (map (\<lambda>mdt.
         ComplexIO_read fs (xyAcc_base (getOutputFilenameRoot h mdt (te_outPath te))
           (show_int (int og + 1))) ''.mrc'' y x)
       (filter (\<lambda>mdt. pair_exists fs (getOutputFilenameRoot h mdt (te_outPath te))
           (show_int (int og + 1))) mdts)))"
  "fi_wAccSum (group_input te h fs mdts og) =
     (\<lambda>y x. sum_list (map (\<lambda>mdt.
         read_image fs (wAcc_name (getOutputFilenameRoot h mdt (te_outPath te))
           (show_int (int og + 1))) y x)
       (filter (\<lambda>mdt. pair_exists fs (getOutputFilenameRoot h mdt (te_outPath te))
           (show_int (int og + 1))) mdts)))"
  by (simp_all add: group_input_def merge_batches_sum Let_def img_zero_def)

subsection \<open>From the particles to the merged sums\<close>

lemma digit_char_inj:
  assumes "digit_char a = digit_char b" and "a < 10" and "b < 10"
  shows "a = b"
proof -
  have r: "k < 10 \<longleftrightarrow> k \<in> {0, 1, 2, 3, 4, 5, 6, 7, 8, 9}" for k :: nat
    by auto
  from assms(2,3) have "a \<in> {0, 1, 2, 3, 4, 5, 6, 7, 8, 9}" "b \<in> {0, 1, 2, 3, 4, 5, 6, 7, 8, 9}"
    by (simp_all only: r)
  with assms(1) show ?thesis
    by (auto simp: digit_char_def)
qed

lemma digit_char_mod: "digit_char (n mod 10) = digit_char n"
  by (simp add: digit_char_def)

lemma digit_char_is_digit: "digit_char n \<in> set ''0123456789''"
  unfolding digit_char_def by (rule nth_mem) simp

lemma show_nat_digits: "set (show_nat n) \<subseteq> set ''0123456789''"
proof (induction n rule: show_nat.induct)
  case (1 n)
  show ?case
  proof (cases "n < 10")
    case True
    then show ?thesis
      using digit_char_is_digit [of n] by (subst show_nat.simps) simp
  next
    case False
    then show ?thesis
      using "1.IH" digit_char_is_digit [of n] by (subst show_nat.simps) simp
  qed
qed

lemma show_nat_not_Nil: "show_nat n \<noteq> []"
  by (subst show_nat.simps) simp

lemma show_nat_last: "last (show_nat n) = digit_char n"
  by (subst show_nat.simps) simp

lemma show_nat_butlast: "butlast (show_nat n) = (if n < 10 then [] else show_nat (n div 10))"
  by (subst show_nat.simps) simp

lemma show_nat_inj: "show_nat n = show_nat m \<Longrightarrow> n = m"
proof (induction n arbitrary: m rule: show_nat.induct)
  case (1 n)
  have "digit_char (n mod 10) = digit_char (m mod 10)"
    using "1.prems" show_nat_last [of n] show_nat_last [of m] by (simp add: digit_char_mod)
  then have md: "n mod 10 = m mod 10"
    by (rule digit_char_inj) simp_all
  have bl: "(if n < 10 then [] else show_nat (n div 10))
              = (if m < 10 then [] else show_nat (m div 10))"
    using "1.prems" show_nat_butlast [of n] show_nat_butlast [of m] by simp
  show ?case
  proof (cases "n < 10")
    case True
    with bl have "m < 10" using show_nat_not_Nil [of "m div 10"] by (auto split: if_splits)
    with True md show ?thesis by simp
  next
    case False
    with bl have m: "\<not> m < 10" and e: "show_nat (n div 10) = show_nat (m div 10)"
      using show_nat_not_Nil [of "n div 10"] by (auto split: if_splits)
    from "1.IH" [OF False e] have "n div 10 = m div 10" .
    with md show ?thesis by (metis div_mult_mod_eq)
  qed
qed

lemma show_int_inj: "show_int i = show_int j \<Longrightarrow> i = j"
proof -
  assume e: "show_int i = show_int j"
  have nd: "CHR ''-'' \<notin> set (show_nat n)" for n
    using show_nat_digits [of n] by auto
  have h: "show_nat n \<noteq> CHR ''-'' # xs" for n xs
    using nd [of n] by (metis list.set_intros(1))
  show "i = j"
  proof (cases "i < 0")
    case True
    show ?thesis
    proof (cases "j < 0")
      case jn: True
      with True e have "nat (- i) = nat (- j)"
        by (auto simp: show_int_def dest: show_nat_inj)
      with True jn show ?thesis by simp
    next
      case False
      with True e h show ?thesis by (simp add: show_int_def) metis
    qed
  next
    case False
    show ?thesis
    proof (cases "j < 0")
      case True
      with False e h show ?thesis by (simp add: show_int_def)
    next
      case jp: False
      with False e have "nat i = nat j"
        by (auto simp: show_int_def dest: show_nat_inj)
      with False jp show ?thesis by simp
    qed
  qed
qed

lemma pair_names_distinct: "distinct (pair_names outRoot g)"
  by (simp add: pair_names_def xyAcc_base_def wAcc_name_def)

lemma pair_names_disjoint:
  assumes "g \<noteq> g'"
  shows "set (pair_names outRoot g) \<inter> set (pair_names outRoot g') = {}"
proof -
  have a: "show_int g \<noteq> show_int g'" using assms show_int_inj by blast
  have s: "(u @ ''_real.mrc'' = v @ ''_real.mrc'') = (u = v)"
    "(u @ ''_imag.mrc'' = v @ ''_imag.mrc'') = (u = v)"
    "(u @ ''_real.mrc'' = v @ ''_imag.mrc'') = False"
    "(u @ ''_imag.mrc'' = v @ ''_real.mrc'') = False"
    "(u @ ''.mrc'' = v @ ''.mrc'') = (u = v)" for u v :: string
    by (simp_all add: append_eq_append_conv)
  show ?thesis
    using a by (simp add: pair_names_def xyAcc_base_def wAcc_name_def s)
qed

lemma pair_names_concat_distinct:
  assumes "distinct gs"
  shows "distinct (concat (map (pair_names outRoot) gs))"
  using assms
proof (induction gs)
  case Nil
  show ?case by simp
next
  case (Cons g gs)
  have "set (pair_names outRoot g) \<inter> set (pair_names outRoot g') = {}" if "g' \<in> set gs" for g'
    using that Cons.prems by (intro pair_names_disjoint) auto
  then show ?case
    using Cons pair_names_distinct [of outRoot g] by auto
qed

lemma apply_writes_lookup:
  assumes "distinct (map fst ws)" and "(n, v) \<in> set ws"
  shows "apply_writes fs ws n = Some v"
  using assms unfolding apply_writes_def
proof (induction ws arbitrary: fs)
  case Nil
  then show ?case by simp
next
  case (Cons w ws)
  show ?case
  proof (cases "(n, v) \<in> set ws")
    case True
    with Cons show ?thesis by simp
  next
    case False
    with Cons.prems(2) have w: "w = (n, v)" by simp
    have nn: "n \<notin> fst ` set ws"
      using Cons.prems(1) w by simp
    have "foldl write_file fs' ws n = fs' n" for fs'
      using nn by (induction ws arbitrary: fs') (auto simp: write_file_def)
    then have "foldl write_file (write_file fs w) ws n = write_file fs w n" .
    moreover have "write_file fs w n = Some v" by (simp add: w write_file_def)
    ultimately show ?thesis by simp
  qed
qed

lemma group_names_concat:
  "map fst (concat (map (\<lambda>g.
        ComplexIO_write (sxy g) (outRoot @ ''_xyAcc_optics-class_'' @ show_int g) ''.mrc''
        @ [(outRoot @ ''_wAcc_optics-class_'' @ show_int g @ ''.mrc'', sw g)]) gs))
     = concat (map (pair_names outRoot) gs)"
  by (induction gs)
    (simp_all add: ComplexIO_write_def pair_names_def xyAcc_base_def wAcc_name_def)

lemma batch_writes_names:
  "map fst (batch_writes h angpix outPath b) =
     concat (map (pair_names (getOutputFilenameRoot h (fst b) outPath)) (getOptGroupsPresent (fst b)))"
  unfolding batch_writes_def expected_writes_def by (rule group_names_concat)

lemma batch_writes_mem:
  assumes "g \<in> set (getOptGroupsPresent (fst b))"
  shows "(xyAcc_base (getOutputFilenameRoot h (fst b) outPath) (show_int g) @ ''_real.mrc'',
            \<lambda>y x. Re (group_sum_xy h angpix (fst b) (fst (snd b)) (snd (snd b)) g y x))
           \<in> set (batch_writes h angpix outPath b)"
    and "(xyAcc_base (getOutputFilenameRoot h (fst b) outPath) (show_int g) @ ''_imag.mrc'',
            \<lambda>y x. Im (group_sum_xy h angpix (fst b) (fst (snd b)) (snd (snd b)) g y x))
           \<in> set (batch_writes h angpix outPath b)"
    and "(wAcc_name (getOutputFilenameRoot h (fst b) outPath) (show_int g),
            group_sum_w h angpix (fst b) (fst (snd b)) (snd (snd b)) g)
           \<in> set (batch_writes h angpix outPath b)"
  using assms
  by (auto simp: batch_writes_def expected_writes_def ComplexIO_write_def xyAcc_base_def
      wAcc_name_def)

lemma disjoint_keys_pair:
  assumes "disjoint_keys h outPath bs" and "b \<in> set bs" and "b' \<in> set bs" and "b \<noteq> b'"
  shows "set (pair_names (getOutputFilenameRoot h (fst b) outPath) g)
           \<inter> set (pair_names (getOutputFilenameRoot h (fst b') outPath) g') = {}"
  using assms
proof (induction bs)
  case Nil
  then show ?case by simp
next
  case (Cons a bs)
  show ?case
  proof (cases "b \<in> set bs \<and> b' \<in> set bs")
    case True
    with Cons show ?thesis by simp
  next
    case False
    with Cons.prems consider "a = b" "b' \<in> set bs" | "a = b'" "b \<in> set bs" by auto
    then show ?thesis
    proof cases
      case 1
      with Cons.prems(1) show ?thesis by simp
    next
      case 2
      with Cons.prems(1) have
        "set (pair_names (getOutputFilenameRoot h (fst b') outPath) g')
           \<inter> set (pair_names (getOutputFilenameRoot h (fst b) outPath) g) = {}"
        by simp
      then show ?thesis by blast
    qed
  qed
qed

lemma batch_names_set:
  "set (map fst (batch_writes h angpix outPath b)) =
     (\<Union>g \<in> set (getOptGroupsPresent (fst b)).
         set (pair_names (getOutputFilenameRoot h (fst b) outPath) g))"
  by (simp add: batch_writes_names)

lemma all_writes_distinct:
  assumes "disjoint_keys h outPath bs"
  shows "distinct (map fst (concat (map (batch_writes h angpix outPath) bs)))"
  using assms
proof (induction bs)
  case Nil
  show ?case by simp
next
  case (Cons b bs)
  have d: "distinct (map fst (batch_writes h angpix outPath b))"
    unfolding batch_writes_names
    by (intro pair_names_concat_distinct) (simp add: getOptGroupsPresent_def)
  have "set (map fst (batch_writes h angpix outPath b))
          \<inter> set (map fst (batch_writes h angpix outPath b')) = {}" if "b' \<in> set bs" for b'
    unfolding batch_names_set using Cons.prems that by fastforce
  moreover have "set (map fst (concat (map (batch_writes h angpix outPath) bs)))
                   = (\<Union>b' \<in> set bs. set (map fst (batch_writes h angpix outPath b')))"
    by (simp add: map_concat)
  ultimately have "set (map fst (batch_writes h angpix outPath b))
          \<inter> set (map fst (concat (map (batch_writes h angpix outPath) bs))) = {}"
    by blast
  with d Cons show ?case by simp
qed

lemma all_writes_dom:
  "dom (apply_writes Map.empty (concat (map (batch_writes h angpix outPath) bs)))
     = (\<Union>b \<in> set bs. \<Union>g \<in> set (getOptGroupsPresent (fst b)).
          set (pair_names (getOutputFilenameRoot h (fst b) outPath) g))"
proof -
  have "fst ` set (concat (map (batch_writes h angpix outPath) bs))
          = (\<Union>b \<in> set bs. set (map fst (batch_writes h angpix outPath b)))"
    by auto
  then show ?thesis
    by (simp add: dom_apply_writes batch_writes_names)
qed

lemma stored_pair_exists:
  assumes "disjoint_keys h outPath bs" and "b \<in> set bs"
  shows "pair_exists (apply_writes Map.empty (concat (map (batch_writes h angpix outPath) bs)))
           (getOutputFilenameRoot h (fst b) outPath) (show_int g)
         = (g \<in> set (getOptGroupsPresent (fst b)))"
proof
  assume "g \<in> set (getOptGroupsPresent (fst b))"
  then show "pair_exists (apply_writes Map.empty (concat (map (batch_writes h angpix outPath) bs)))
           (getOutputFilenameRoot h (fst b) outPath) (show_int g)"
    unfolding pair_exists_names all_writes_dom using assms(2) by blast
next
  let ?n = "wAcc_name (getOutputFilenameRoot h (fst b) outPath) (show_int g)"
  assume "pair_exists (apply_writes Map.empty (concat (map (batch_writes h angpix outPath) bs)))
           (getOutputFilenameRoot h (fst b) outPath) (show_int g)"
  then have "?n \<in> dom (apply_writes Map.empty (concat (map (batch_writes h angpix outPath) bs)))"
    by (simp add: pair_exists_def exists_file_def)
  then obtain b' g' where
    b': "b' \<in> set bs" and g': "g' \<in> set (getOptGroupsPresent (fst b'))" and
    n: "?n \<in> set (pair_names (getOutputFilenameRoot h (fst b') outPath) g')"
    unfolding all_writes_dom by blast
  have m: "?n \<in> set (pair_names (getOutputFilenameRoot h (fst b) outPath) g)"
    by (simp add: pair_names_def)
  have "b' = b"
    using disjoint_keys_pair [OF assms(1,2) b', of g g'] m n by blast
  moreover have "g' = g"
    using pair_names_disjoint [of g g' "getOutputFilenameRoot h (fst b) outPath"] m n
      \<open>b' = b\<close> by blast
  ultimately show "g \<in> set (getOptGroupsPresent (fst b))"
    using g' by simp
qed

lemma stored_pair_content:
  assumes "disjoint_keys h outPath bs" and "b \<in> set bs"
    and "g \<in> set (getOptGroupsPresent (fst b))"
  shows "ComplexIO_read (apply_writes Map.empty (concat (map (batch_writes h angpix outPath) bs)))
           (xyAcc_base (getOutputFilenameRoot h (fst b) outPath) (show_int g)) ''.mrc''
         = group_sum_xy h angpix (fst b) (fst (snd b)) (snd (snd b)) g"
    and "read_image (apply_writes Map.empty (concat (map (batch_writes h angpix outPath) bs)))
           (wAcc_name (getOutputFilenameRoot h (fst b) outPath) (show_int g))
         = group_sum_w h angpix (fst b) (fst (snd b)) (snd (snd b)) g"
proof -
  let ?W = "concat (map (batch_writes h angpix outPath) bs)"
  note d = all_writes_distinct [OF assms(1), of angpix]
  have s: "set (batch_writes h angpix outPath b) \<subseteq> set ?W"
    using assms(2) by auto
  note m = batch_writes_mem [OF assms(3), of h outPath angpix]
  have r: "apply_writes Map.empty ?W
             (xyAcc_base (getOutputFilenameRoot h (fst b) outPath) (show_int g) @ ''_real.mrc'')
           = Some (\<lambda>y x. Re (group_sum_xy h angpix (fst b) (fst (snd b)) (snd (snd b)) g y x))"
    using m(1) s by (intro apply_writes_lookup [OF d]) blast
  have i: "apply_writes Map.empty ?W
             (xyAcc_base (getOutputFilenameRoot h (fst b) outPath) (show_int g) @ ''_imag.mrc'')
           = Some (\<lambda>y x. Im (group_sum_xy h angpix (fst b) (fst (snd b)) (snd (snd b)) g y x))"
    using m(2) s by (intro apply_writes_lookup [OF d]) blast
  have w: "apply_writes Map.empty ?W
             (wAcc_name (getOutputFilenameRoot h (fst b) outPath) (show_int g))
           = Some (group_sum_w h angpix (fst b) (fst (snd b)) (snd (snd b)) g)"
    using m(3) s by (intro apply_writes_lookup [OF d]) blast
  show "ComplexIO_read (apply_writes Map.empty ?W)
           (xyAcc_base (getOutputFilenameRoot h (fst b) outPath) (show_int g)) ''.mrc''
         = group_sum_xy h angpix (fst b) (fst (snd b)) (snd (snd b)) g"
    using r i by (simp add: ComplexIO_read_def read_image_def)
  show "read_image (apply_writes Map.empty ?W)
           (wAcc_name (getOutputFilenameRoot h (fst b) outPath) (show_int g))
         = group_sum_w h angpix (fst b) (fst (snd b)) (snd (snd b)) g"
    using w by (simp add: read_image_def)
qed

lemma group_sum_absent:
  assumes "g \<notin> set (getOptGroupsPresent mdt)"
  shows "group_sum_xy h angpix mdt obs pred g = (\<lambda>y x. 0)"
    and "group_sum_w h angpix mdt obs pred g = (\<lambda>y x. 0)"
proof -
  have "filter (\<lambda>p. optics_group (mdt ! p) = g) [0..<length mdt] = []"
    using assms by (auto simp: filter_empty_conv getOptGroupsPresent_def)
  then show "group_sum_xy h angpix mdt obs pred g = (\<lambda>y x. 0)"
    and "group_sum_w h angpix mdt obs pred g = (\<lambda>y x. 0)"
    by (simp_all add: group_sum_xy_def group_sum_w_def)
qed

lemma sum_list_filter_if:
  fixes f :: "'b \<Rightarrow> 'a::comm_monoid_add"
  shows "sum_list (map f (filter P xs)) = sum_list (map (\<lambda>x. if P x then f x else 0) xs)"
  by (induction xs) simp_all

lemma merged_is_plain_sum:
  assumes "disjoint_keys h (te_outPath te) bs"
  shows "fi_xyAccSum (group_input te h
            (apply_writes Map.empty (concat (map (batch_writes h (te_angpix te) (te_outPath te)) bs)))
            (map fst bs) og)
          = (\<lambda>y x. sum_list (map (\<lambda>b.
               group_sum_xy h (te_angpix te) (fst b) (fst (snd b)) (snd (snd b)) (int og + 1) y x) bs))"
    and "fi_wAccSum (group_input te h
            (apply_writes Map.empty (concat (map (batch_writes h (te_angpix te) (te_outPath te)) bs)))
            (map fst bs) og)
          = (\<lambda>y x. sum_list (map (\<lambda>b.
               group_sum_w h (te_angpix te) (fst b) (fst (snd b)) (snd (snd b)) (int og + 1) y x) bs))"
proof -
  let ?fs = "apply_writes Map.empty (concat (map (batch_writes h (te_angpix te) (te_outPath te)) bs))"
  let ?g = "int og + 1"
  let ?P = "\<lambda>mdt. pair_exists ?fs (getOutputFilenameRoot h mdt (te_outPath te)) (show_int ?g)"
  have xy: "(if ?P (fst b)
             then ComplexIO_read ?fs (xyAcc_base (getOutputFilenameRoot h (fst b) (te_outPath te))
                    (show_int ?g)) ''.mrc'' y x
             else 0)
            = group_sum_xy h (te_angpix te) (fst b) (fst (snd b)) (snd (snd b)) ?g y x"
    if "b \<in> set bs" for b y x
    using stored_pair_exists [OF assms that, of "te_angpix te" ?g]
      stored_pair_content(1) [OF assms that, of ?g "te_angpix te"]
      group_sum_absent(1) [of ?g "fst b" h "te_angpix te" "fst (snd b)" "snd (snd b)"]
    by (cases "?g \<in> set (getOptGroupsPresent (fst b))") simp_all
  have w: "(if ?P (fst b)
             then read_image ?fs (wAcc_name (getOutputFilenameRoot h (fst b) (te_outPath te))
                    (show_int ?g)) y x
             else 0)
            = group_sum_w h (te_angpix te) (fst b) (fst (snd b)) (snd (snd b)) ?g y x"
    if "b \<in> set bs" for b y x
    using stored_pair_exists [OF assms that, of "te_angpix te" ?g]
      stored_pair_content(2) [OF assms that, of ?g "te_angpix te"]
      group_sum_absent(2) [of ?g "fst b" h "te_angpix te" "fst (snd b)" "snd (snd b)"]
    by (cases "?g \<in> set (getOptGroupsPresent (fst b))") simp_all
  show "fi_xyAccSum (group_input te h ?fs (map fst bs) og)
          = (\<lambda>y x. sum_list (map (\<lambda>b.
               group_sum_xy h (te_angpix te) (fst b) (fst (snd b)) (snd (snd b)) ?g y x) bs))"
    unfolding group_input_sums
    by (intro ext) (simp add: sum_list_filter_if comp_def xy cong: map_cong)
  show "fi_wAccSum (group_input te h ?fs (map fst bs) og)
          = (\<lambda>y x. sum_list (map (\<lambda>b.
               group_sum_w h (te_angpix te) (fst b) (fst (snd b)) (snd (snd b)) ?g y x) bs))"
    unfolding group_input_sums
    by (intro ext) (simp add: sum_list_filter_if comp_def w cong: map_cong)
qed

text \<open>
  C3. With doubles as reals, so that the tolerance is zero. For every order in which
  the iterations of the particle loop take effect and every number of workers,
  \<^verbatim>\<open>processMicrograph\<close> writes for each group of the batch the plain sums of the
  contributions of its particles. On the file system that holds what the batches of
  \<open>bs\<close> write, each under its own names, the sums \<^verbatim>\<open>parametricFit\<close> forms for a group,
  from the batches in any order, are the plain sums of the contributions of all the
  particles of that group; and on any file system the order of the batches makes no
  difference to what is merged.
\<close>

theorem accumulation_order_invariant:
  assumes "te_ready te"
    and "\<forall>p \<in> set mdt. 0 \<le> optics_group p \<and> optics_group p \<le> int (om_numberOfOpticsGroups om)"
    and "valid_schedule (te\<lparr>te_nr_omp_threads := n\<rparr>) (length mdt) sched"
    and "length mdt \<le> length obs" and "length mdt \<le> length pred"
    and "disjoint_keys h (te_outPath te) bs"
    and "mset mdts = mset (map fst bs)"
  shows "processMicrograph (te\<lparr>te_nr_omp_threads := n\<rparr>) om h mdt obs pred sched
           = Inr (batch_writes h (te_angpix te) (te_outPath te) (mdt, obs, pred))
         \<and> fi_xyAccSum (group_input te h
              (apply_writes Map.empty
                 (concat (map (batch_writes h (te_angpix te) (te_outPath te)) bs))) mdts og)
           = (\<lambda>y x. sum_list (map (\<lambda>b.
                group_sum_xy h (te_angpix te) (fst b) (fst (snd b)) (snd (snd b)) (int og + 1) y x) bs))
         \<and> fi_wAccSum (group_input te h
              (apply_writes Map.empty
                 (concat (map (batch_writes h (te_angpix te) (te_outPath te)) bs))) mdts og)
           = (\<lambda>y x. sum_list (map (\<lambda>b.
                group_sum_w h (te_angpix te) (fst b) (fst (snd b)) (snd (snd b)) (int og + 1) y x) bs))
         \<and> group_input te h fs mdts og = group_input te h fs (map fst bs) og"
proof -
  have r: "te_ready (te\<lparr>te_nr_omp_threads := n\<rparr>)" using assms(1) by simp
  have p: "processMicrograph (te\<lparr>te_nr_omp_threads := n\<rparr>) om h mdt obs pred sched
           = Inr (batch_writes h (te_angpix te) (te_outPath te) (mdt, obs, pred))"
    using processMicrograph_result [OF r assms(2,3,4,5), of h] by (simp add: batch_writes_def)
  have g: "group_input te h fs' mdts og = group_input te h fs' (map fst bs) og" for fs'
    by (rule group_input_perm [OF assms(7)])
  show ?thesis
    using p merged_is_plain_sum [OF assms(6), of og] by (simp add: g)
qed

lemma ex_disjoint_keys: "disjoint_keys ex_h ''o/'' ex_bs"
  by (simp add: ex_bs_def ex_h_def ex_mdt_def ex_mdt2_def pair_names_def xyAcc_base_def
      wAcc_name_def)

theorem accumulation_order_invariant_witness:
  "processMicrograph (ex_te\<lparr>te_nr_omp_threads := 1\<rparr>) ex_om2 ex_h ex_mdt2 [ex_img, ex_img]
       [ex_img, ex_img] [(0, 0), (1, 0)]
     = Inr (batch_writes ex_h 1 ''o/'' (ex_mdt2, [ex_img, ex_img], [ex_img, ex_img]))
   \<and> processMicrograph (ex_te\<lparr>te_nr_omp_threads := 3\<rparr>) ex_om2 ex_h ex_mdt2 [ex_img, ex_img]
       [ex_img, ex_img] [(1, 2), (0, 0)]
     = Inr (batch_writes ex_h 1 ''o/'' (ex_mdt2, [ex_img, ex_img], [ex_img, ex_img]))
   \<and> fi_wAccSum (group_input ex_te ex_h
        (apply_writes Map.empty (concat (map (batch_writes ex_h 1 ''o/'') ex_bs)))
        [ex_mdt2, ex_mdt] 0) 0 0 = 10
   \<and> fi_wAccSum (group_input ex_te ex_h
        (apply_writes Map.empty (concat (map (batch_writes ex_h 1 ''o/'') ex_bs)))
        [ex_mdt2, ex_mdt] 1) 0 0 = 5
   \<and> group_input ex_te ex_h ex_fs [ex_mdt2, ex_mdt] 0 = group_input ex_te ex_h ex_fs [ex_mdt, ex_mdt2] 0"
proof -
  have a: "te_ready ex_te"
    "\<forall>p \<in> set ex_mdt2. 0 \<le> optics_group p \<and> optics_group p \<le> int (om_numberOfOpticsGroups ex_om2)"
    "length ex_mdt2 \<le> length [ex_img, ex_img]"
    by (simp_all add: ex_te_def ex_mdt2_def ex_om2_def)
  have s1: "valid_schedule (ex_te\<lparr>te_nr_omp_threads := 1\<rparr>) (length ex_mdt2) [(0, 0), (1, 0)]"
    by (auto simp: valid_schedule_def ex_mdt2_def)
  have s3: "valid_schedule (ex_te\<lparr>te_nr_omp_threads := 3\<rparr>) (length ex_mdt2) [(1, 2), (0, 0)]"
    by (auto simp: valid_schedule_def ex_mdt2_def)
  have e: "te_angpix ex_te = 1" "te_outPath ex_te = ''o/''" by (simp_all add: ex_te_def)
  have d: "disjoint_keys ex_h (te_outPath ex_te) ex_bs"
    unfolding e by (rule ex_disjoint_keys)
  have m: "mset [ex_mdt2, ex_mdt] = mset (map fst ex_bs)" by (simp add: ex_bs_def)
  have v: "sum_list (map (\<lambda>b. group_sum_w ex_h 1 (fst b) (fst (snd b)) (snd (snd b)) (int 0 + 1) 0 0)
             ex_bs) = 10"
    "sum_list (map (\<lambda>b. group_sum_w ex_h 1 (fst b) (fst (snd b)) (snd (snd b)) (int 1 + 1) 0 0)
             ex_bs) = 5"
    by (simp_all add: ex_bs_def group_sum_w_def ex_mdt_def ex_mdt2_def ex_h_def ex_img_def
        cmod_def power2_eq_square)
  note t1 = accumulation_order_invariant [OF a(1,2) s1 a(3,3) d m, where fs = ex_fs and og = 0, unfolded e]
  note t3 = accumulation_order_invariant [OF a(1,2) s3 a(3,3) d m, where fs = ex_fs and og = 1, unfolded e]
  have w0: "fi_wAccSum (group_input ex_te ex_h
        (apply_writes Map.empty (concat (map (batch_writes ex_h 1 ''o/'') ex_bs)))
        [ex_mdt2, ex_mdt] 0) 0 0 = 10"
    using t1 v(1) by simp
  have w1: "fi_wAccSum (group_input ex_te ex_h
        (apply_writes Map.empty (concat (map (batch_writes ex_h 1 ''o/'') ex_bs)))
        [ex_mdt2, ex_mdt] 1) 0 0 = 5"
    using t3 v(2) by simp
  have g: "group_input ex_te ex_h ex_fs [ex_mdt2, ex_mdt] 0
             = group_input ex_te ex_h ex_fs [ex_mdt, ex_mdt2] 0"
    using t1 by (simp add: ex_bs_def)
  from t1 t3 w0 w1 g show ?thesis by blast
qed

subsection \<open>Visibility of a pair while it is written\<close>

lemma nth_in_take_distinct:
  assumes "distinct xs" and "i < length xs"
  shows "(xs ! i \<in> set (take k xs)) = (i < k)"
proof
  assume "xs ! i \<in> set (take k xs)"
  then obtain j where j: "j < length (take k xs)" "take k xs ! j = xs ! i"
    by (auto simp: in_set_conv_nth)
  then have "j < k" "j < length xs" "xs ! j = xs ! i" by simp_all
  with assms have "j = i" by (simp add: nth_eq_iff_index_eq)
  with \<open>j < k\<close> show "i < k" by simp
next
  assume "i < k"
  with assms(2) have "i < length (take k xs)" "take k xs ! i = xs ! i" by simp_all
  then show "xs ! i \<in> set (take k xs)" by (metis nth_mem)
qed

lemma pair_names_nth:
  assumes "ci < length gs" and "j < 3"
  shows "3 * ci + j < length (concat (map (pair_names outRoot) gs))
         \<and> concat (map (pair_names outRoot) gs) ! (3 * ci + j) = pair_names outRoot (gs ! ci) ! j"
  using assms(1)
proof (induction gs arbitrary: ci)
  case Nil
  then show ?case by simp
next
  case (Cons g gs)
  have l: "length (pair_names outRoot g) = 3" by (simp add: pair_names_def)
  show ?case
  proof (cases ci)
    case 0
    with assms(2) l show ?thesis by (simp add: nth_append)
  next
    case (Suc c)
    with Cons.prems have "c < length gs" by simp
    from Cons.IH [OF this] Suc l show ?thesis by (simp add: nth_append)
  qed
qed

lemma pair_visible_after_weight:
  assumes r: "processMicrograph te om h mdt obs pred sched = Inr ws"
    and ci: "ci < length (getOptGroupsPresent mdt)"
    and fresh: "\<not> exists_file fs (wAcc_name (getOutputFilenameRoot h mdt (te_outPath te))
                  (show_int (getOptGroupsPresent mdt ! ci)))"
  shows "pair_exists (apply_writes fs (take k ws)) (getOutputFilenameRoot h mdt (te_outPath te))
           (show_int (getOptGroupsPresent mdt ! ci)) = (3 * ci + 3 \<le> k)"
proof -
  let ?root = "getOutputFilenameRoot h mdt (te_outPath te)"
  let ?gs = "getOptGroupsPresent mdt"
  let ?N = "concat (map (pair_names ?root) ?gs)"
  have n: "map fst ws = ?N" by (rule processMicrograph_names [OF r])
  have d: "distinct ?N"
    by (intro pair_names_concat_distinct) (simp add: getOptGroupsPresent_def)
  have "dom (apply_writes fs (take k ws)) = dom fs \<union> set (take k (map fst ws))"
    by (simp add: dom_apply_writes take_map)
  then have dom: "dom (apply_writes fs (take k ws)) = dom fs \<union> set (take k ?N)"
    by (simp only: n)
  note p0 = pair_names_nth [OF ci, of 0 ?root]
  note p1 = pair_names_nth [OF ci, of 1 ?root]
  note p2 = pair_names_nth [OF ci, of 2 ?root]
  have e0: "?N ! (3 * ci) = xyAcc_base ?root (show_int (?gs ! ci)) @ ''_real.mrc''"
    using p0 by (simp add: pair_names_def)
  have e1: "?N ! (3 * ci + 1) = xyAcc_base ?root (show_int (?gs ! ci)) @ ''_imag.mrc''"
    using p1 by (simp add: pair_names_def)
  have e2: "?N ! (3 * ci + 2) = wAcc_name ?root (show_int (?gs ! ci))"
    using p2 by (simp add: pair_names_def)
  have m0: "(?N ! (3 * ci) \<in> set (take k ?N)) = (3 * ci < k)"
    using p0 by (intro nth_in_take_distinct [OF d]) simp
  have m1: "(?N ! (3 * ci + 1) \<in> set (take k ?N)) = (3 * ci + 1 < k)"
    using p1 by (intro nth_in_take_distinct [OF d]) simp
  have m2: "(?N ! (3 * ci + 2) \<in> set (take k ?N)) = (3 * ci + 2 < k)"
    using p2 by (intro nth_in_take_distinct [OF d]) simp
  show ?thesis
    using fresh m0 m1 m2 unfolding e0 e1 e2
    by (auto simp: pair_exists_def exists_file_def dom)
qed

text \<open>
  C7, as stated, fails. The first file written already has its final name. After the
  call of \<^verbatim>\<open>ComplexIO::write\<close> and before that of \<^verbatim>\<open>wAccSum.write\<close>, the two components
  of the complex sum exist under their final names and the weight image does not; and
  over an older pair of the same key, the three-file test holds while the complex sum is
  new and the weight image is still the old one.
\<close>

theorem pair_visible_while_incomplete:
  "processMicrograph ex_te ex_om ex_h ex_mdt [ex_img] [ex_img] [(0, 1)]
     = Inr (expected_writes ex_h 1 ''o/'' ex_mdt [ex_img] [ex_img])
   \<and> fst (hd (expected_writes ex_h 1 ''o/'' ex_mdt [ex_img] [ex_img]))
       = ''o/m_xyAcc_optics-class_1_real.mrc''
   \<and> exists_file (apply_writes Map.empty (take 2 (expected_writes ex_h 1 ''o/'' ex_mdt [ex_img] [ex_img])))
        ''o/m_xyAcc_optics-class_1_real.mrc''
   \<and> exists_file (apply_writes Map.empty (take 2 (expected_writes ex_h 1 ''o/'' ex_mdt [ex_img] [ex_img])))
        ''o/m_xyAcc_optics-class_1_imag.mrc''
   \<and> \<not> exists_file (apply_writes Map.empty (take 2 (expected_writes ex_h 1 ''o/'' ex_mdt [ex_img] [ex_img])))
        ''o/m_wAcc_optics-class_1.mrc''
   \<and> pair_exists (apply_writes ex_fs (take 2 (expected_writes ex_h 1 ''o/'' ex_mdt [ex_img] [ex_img])))
        ''o/m'' ''1''
   \<and> read_image (apply_writes ex_fs (take 2 (expected_writes ex_h 1 ''o/'' ex_mdt [ex_img] [ex_img])))
        ''o/m_xyAcc_optics-class_1_real.mrc'' 0 0 = 5
   \<and> read_image (apply_writes ex_fs (take 2 (expected_writes ex_h 1 ''o/'' ex_mdt [ex_img] [ex_img])))
        ''o/m_wAcc_optics-class_1.mrc'' 0 0 = 2
   \<and> read_image (apply_writes ex_fs (expected_writes ex_h 1 ''o/'' ex_mdt [ex_img] [ex_img]))
        ''o/m_wAcc_optics-class_1.mrc'' 0 0 = 5"
  using ex_process unfolding ex_expected_writes
  by (simp add: apply_writes_def write_file_def exists_file_def
      pair_exists_def xyAcc_base_def wAcc_name_def read_image_def ex_fs_def)

text \<open>
  C7, amended. \<^verbatim>\<open>processMicrograph\<close> writes the three files of each pair under their
  final names, one after the other: real component, imaginary component, weight image,
  group by group. There is no provisional location and no publishing step: after any
  number of the writes, the files present are those present before and the final names
  written so far. For a pair whose weight image is not on disk beforehand, the
  three-file test of the readers holds from the write of its weight image on and at no
  point before.
\<close>

theorem checkpoint_written_in_place:
  assumes "processMicrograph te om h mdt obs pred sched = Inr ws"
  shows "map fst ws =
     concat (map (\<lambda>g.
        [getOutputFilenameRoot h mdt (te_outPath te) @ ''_xyAcc_optics-class_'' @ show_int g @ ''_real.mrc'',
         getOutputFilenameRoot h mdt (te_outPath te) @ ''_xyAcc_optics-class_'' @ show_int g @ ''_imag.mrc'',
         getOutputFilenameRoot h mdt (te_outPath te) @ ''_wAcc_optics-class_'' @ show_int g @ ''.mrc''])
       (getOptGroupsPresent mdt))
     \<and> (\<forall>k. dom (apply_writes fs (take k ws)) = dom fs \<union> set (take k (map fst ws)))
     \<and> (\<forall>ci k. ci < length (getOptGroupsPresent mdt)
            \<and> \<not> exists_file fs (getOutputFilenameRoot h mdt (te_outPath te)
                    @ ''_wAcc_optics-class_'' @ show_int (getOptGroupsPresent mdt ! ci) @ ''.mrc'')
          \<longrightarrow> pair_exists (apply_writes fs (take k ws))
                (getOutputFilenameRoot h mdt (te_outPath te))
                (show_int (getOptGroupsPresent mdt ! ci)) = (3 * ci + 3 \<le> k))"
proof (intro conjI allI impI)
  have "pair_names (getOutputFilenameRoot h mdt (te_outPath te)) = (\<lambda>g.
        [getOutputFilenameRoot h mdt (te_outPath te) @ ''_xyAcc_optics-class_'' @ show_int g @ ''_real.mrc'',
         getOutputFilenameRoot h mdt (te_outPath te) @ ''_xyAcc_optics-class_'' @ show_int g @ ''_imag.mrc'',
         getOutputFilenameRoot h mdt (te_outPath te) @ ''_wAcc_optics-class_'' @ show_int g @ ''.mrc''])"
    by (simp add: fun_eq_iff pair_names_def xyAcc_base_def wAcc_name_def)
  with processMicrograph_names [OF assms]
  show "map fst ws =
     concat (map (\<lambda>g.
        [getOutputFilenameRoot h mdt (te_outPath te) @ ''_xyAcc_optics-class_'' @ show_int g @ ''_real.mrc'',
         getOutputFilenameRoot h mdt (te_outPath te) @ ''_xyAcc_optics-class_'' @ show_int g @ ''_imag.mrc'',
         getOutputFilenameRoot h mdt (te_outPath te) @ ''_wAcc_optics-class_'' @ show_int g @ ''.mrc''])
       (getOptGroupsPresent mdt))"
    by (simp only:)
next
  fix k
  show "dom (apply_writes fs (take k ws)) = dom fs \<union> set (take k (map fst ws))"
    by (simp add: dom_apply_writes take_map)
next
  fix ci k
  assume a: "ci < length (getOptGroupsPresent mdt)
            \<and> \<not> exists_file fs (getOutputFilenameRoot h mdt (te_outPath te)
                    @ ''_wAcc_optics-class_'' @ show_int (getOptGroupsPresent mdt ! ci) @ ''.mrc'')"
  then have "\<not> exists_file fs (wAcc_name (getOutputFilenameRoot h mdt (te_outPath te))
                  (show_int (getOptGroupsPresent mdt ! ci)))"
    by (simp add: wAcc_name_def)
  with a show "pair_exists (apply_writes fs (take k ws))
                (getOutputFilenameRoot h mdt (te_outPath te))
                (show_int (getOptGroupsPresent mdt ! ci)) = (3 * ci + 3 \<le> k)"
    by (intro pair_visible_after_weight [OF assms]) simp_all
qed

theorem checkpoint_written_in_place_witness:
  "map fst (expected_writes ex_h 1 ''o/'' ex_mdt [ex_img] [ex_img])
     = [''o/m_xyAcc_optics-class_1_real.mrc'', ''o/m_xyAcc_optics-class_1_imag.mrc'',
        ''o/m_wAcc_optics-class_1.mrc'']
   \<and> dom (apply_writes Map.empty (take 1 (expected_writes ex_h 1 ''o/'' ex_mdt [ex_img] [ex_img])))
       = {''o/m_xyAcc_optics-class_1_real.mrc''}
   \<and> \<not> pair_exists (apply_writes Map.empty (take 2 (expected_writes ex_h 1 ''o/'' ex_mdt [ex_img] [ex_img])))
         ''o/m'' ''1''
   \<and> pair_exists (apply_writes Map.empty (take 3 (expected_writes ex_h 1 ''o/'' ex_mdt [ex_img] [ex_img])))
         ''o/m'' ''1''"
proof -
  let ?ws = "expected_writes ex_h 1 ''o/'' ex_mdt [ex_img] [ex_img]"
  note t = checkpoint_written_in_place [OF ex_process, of Map.empty]
  note t1 = t [THEN conjunct1]
  note t2 = t [THEN conjunct2, THEN conjunct1, rule_format]
  note t3 = t [THEN conjunct2, THEN conjunct2, rule_format]
  have g: "getOptGroupsPresent ex_mdt = [1]"
    by (simp add: getOptGroupsPresent_def ex_mdt_def)
  have g0: "show_int (getOptGroupsPresent ex_mdt ! 0) = ''1''"
    by (simp add: g show_int_1)
  have r: "getOutputFilenameRoot ex_h ex_mdt (te_outPath ex_te) = ''o/m''"
    by (simp add: ex_h_def ex_mdt_def ex_te_def)
  have f: "(0::nat) < length (getOptGroupsPresent ex_mdt)
            \<and> \<not> exists_file Map.empty (getOutputFilenameRoot ex_h ex_mdt (te_outPath ex_te)
                    @ ''_wAcc_optics-class_'' @ show_int (getOptGroupsPresent ex_mdt ! 0) @ ''.mrc'')"
    by (simp add: g exists_file_def)
  have n: "map fst ?ws
     = [''o/m_xyAcc_optics-class_1_real.mrc'', ''o/m_xyAcc_optics-class_1_imag.mrc'',
        ''o/m_wAcc_optics-class_1.mrc'']"
    unfolding t1 g r by (simp add: show_int_1)
  have d: "dom (apply_writes Map.empty (take 1 ?ws)) = {''o/m_xyAcc_optics-class_1_real.mrc''}"
    unfolding t2 n by simp
  have "pair_exists (apply_writes Map.empty (take 2 ?ws))
          (getOutputFilenameRoot ex_h ex_mdt (te_outPath ex_te))
          (show_int (getOptGroupsPresent ex_mdt ! 0)) = (3 * 0 + 3 \<le> (2::nat))"
    by (rule t3 [OF f])
  then have k2: "\<not> pair_exists (apply_writes Map.empty (take 2 ?ws)) ''o/m'' ''1''"
    unfolding r g0 by simp
  have "pair_exists (apply_writes Map.empty (take 3 ?ws))
          (getOutputFilenameRoot ex_h ex_mdt (te_outPath ex_te))
          (show_int (getOptGroupsPresent ex_mdt ! 0)) = (3 * 0 + 3 \<le> (3::nat))"
    by (rule t3 [OF f])
  then have k3: "pair_exists (apply_writes Map.empty (take 3 ?ws)) ''o/m'' ''1''"
    unfolding r g0 by simp
  from n d k2 k3 show ?thesis by (intro conjI)
qed
end
